theory Spec2Isabelle
  imports Complex_Main
begin

section \<open>JavaScript values used by the inventory engine\<close>

text \<open>
  The engine is TypeScript running on JavaScript values. A \<open>number\<close> is modelled as
  \<open>jsnum\<close>: the finite values as exact rationals, the two infinities and NaN. Rounding
  to 64-bit doubles and the sign of zero are outside the model. Strings are lists of
  code units below 256.
\<close>

datatype jsnum = NaN | NegInf | Num rat | PosInf

text \<open>The relational operators \<open><\<close> and \<open><=\<close>: every comparison with NaN is false.\<close>

fun js_lt :: "jsnum \<Rightarrow> jsnum \<Rightarrow> bool" where
  "js_lt NaN _ = False"
| "js_lt _ NaN = False"
| "js_lt NegInf NegInf = False"
| "js_lt NegInf _ = True"
| "js_lt (Num a) NegInf = False"
| "js_lt (Num a) (Num b) = (a < b)"
| "js_lt (Num a) PosInf = True"
| "js_lt PosInf _ = False"

fun js_le :: "jsnum \<Rightarrow> jsnum \<Rightarrow> bool" where
  "js_le NaN _ = False"
| "js_le _ NaN = False"
| "js_le a b = (\<not> js_lt b a)"

text \<open>Addition \<open>a + b\<close> and unary minus.\<close>

fun js_add :: "jsnum \<Rightarrow> jsnum \<Rightarrow> jsnum" where
  "js_add NaN _ = NaN"
| "js_add _ NaN = NaN"
| "js_add NegInf PosInf = NaN"
| "js_add PosInf NegInf = NaN"
| "js_add NegInf _ = NegInf"
| "js_add _ NegInf = NegInf"
| "js_add PosInf _ = PosInf"
| "js_add _ PosInf = PosInf"
| "js_add (Num a) (Num b) = Num (a + b)"

fun js_neg :: "jsnum \<Rightarrow> jsnum" where
  "js_neg NaN = NaN"
| "js_neg NegInf = PosInf"
| "js_neg (Num a) = Num (- a)"
| "js_neg PosInf = NegInf"

text \<open>\<open>Math.max(a, b)\<close> on numbers: NaN when either argument is NaN.\<close>

fun js_max :: "jsnum \<Rightarrow> jsnum \<Rightarrow> jsnum" where
  "js_max NaN _ = NaN"
| "js_max _ NaN = NaN"
| "js_max a b = (if js_lt a b then b else a)"

text \<open>Truthiness of a number (\<open>x || 0\<close>): zero and NaN are falsy.\<close>

fun js_truthy :: "jsnum \<Rightarrow> bool" where
  "js_truthy NaN = False"
| "js_truthy (Num a) = (a \<noteq> 0)"
| "js_truthy _ = True"

subsection \<open>Characters and strings\<close>

definition is_digit :: "char \<Rightarrow> bool" where
  "is_digit c = (48 \<le> (of_char c :: nat) \<and> (of_char c :: nat) \<le> 57)"

text \<open>
  JavaScript white space and line terminators below code unit 256: tab, line feed,
  vertical tab, form feed, carriage return, space and the no-break space.
\<close>

definition is_space :: "char \<Rightarrow> bool" where
  "is_space c = (of_char c \<in> {9, 10, 11, 12, 13, 32, 160 :: nat})"

definition trim :: "string \<Rightarrow> string" where
  "trim s = rev (dropWhile is_space (rev (dropWhile is_space s)))"

text \<open>\<open>toLowerCase\<close> on code units below 256: A-Z and the accented capitals
  (192 to 222 but for the multiplication sign) move up by 32.\<close>

definition is_upper :: "char \<Rightarrow> bool" where
  "is_upper c =
     (let n = of_char c :: nat in
      (65 \<le> n \<and> n \<le> 90) \<or> (192 \<le> n \<and> n \<le> 222 \<and> n \<noteq> 215))"

definition lower_char :: "char \<Rightarrow> char" where
  "lower_char c = (if is_upper c then char_of (of_char c + 32 :: nat) else c)"

definition toLowerCase :: "string \<Rightarrow> string" where
  "toLowerCase s = map lower_char s"

text \<open>Decimal rendering of an integer, as \<open>String(n)\<close> gives it for an integer below
  10^21 in size.\<close>

definition digit_char :: "nat \<Rightarrow> char" where
  "digit_char d = char_of (48 + d)"

fun show_nat :: "nat \<Rightarrow> string" where
  "show_nat n = (if n < 10 then [digit_char n] else show_nat (n div 10) @ [digit_char (n mod 10)])"

definition show_int :: "int \<Rightarrow> string" where
  "show_int i = (if i < 0 then CHR ''-'' # show_nat (nat (- i)) else show_nat (nat i))"

text \<open>
  \<open>String(x)\<close>, as a template string and \<open>+\<close> on a string apply it to a number.
  An integer of at most 2^53 in size is printed in decimal. The digits of any other
  finite number are those of the nearest double; the model does not hold them and
  takes them from \<open>render\<close>, which stands for that part of the language.
\<close>

type_synonym digits = "rat \<Rightarrow> string"

definition number_to_string :: "digits \<Rightarrow> jsnum \<Rightarrow> string" where
  "number_to_string render v =
     (case v of
        NaN \<Rightarrow> ''NaN''
      | NegInf \<Rightarrow> ''-Infinity''
      | PosInf \<Rightarrow> ''Infinity''
      | Num q \<Rightarrow>
          if of_int \<lfloor>q\<rfloor> = q \<and> \<bar>q\<bar> \<le> 2 ^ 53 then show_int \<lfloor>q\<rfloor> else render q)"

text \<open>The value of a run of decimal digits.\<close>

definition digit_val :: "char \<Rightarrow> nat" where
  "digit_val c = of_char c - 48"

definition digits_val :: "string \<Rightarrow> nat" where
  "digits_val ds = foldl (\<lambda>acc c. 10 * acc + digit_val c) 0 ds"

section \<open>Location codec (utils/helpers)\<close>

text \<open>
  \<open>extractLocationNumber\<close>: the regular expression \<open>/(\d+)$/\<close> finds the longest run
  of digits that ends the string; without one the string itself is returned.
\<close>

definition extractLocationNumber :: "string \<Rightarrow> string" where
  "extractLocationNumber str =
     (let m = rev (takeWhile is_digit (rev str)) in if m = [] then str else m)"

text \<open>\<open>buildLocationArray\<close>: three template strings over numbers, no check of the
  coordinates.\<close>

definition buildLocationArray :: "digits \<Rightarrow> jsnum \<Rightarrow> jsnum \<Rightarrow> jsnum \<Rightarrow> string list" where
  "buildLocationArray render cabinet row col =
     [''cab'' @ number_to_string render cabinet, ''row'' @ number_to_string render row,
      ''col'' @ number_to_string render col]"

text \<open>The grid of \<open>ItemLocation\<close>: cabinet 1-5, row 1-6, col 1-4, on the integers and
  as a test on any three numbers.\<close>

definition in_bounds :: "int \<Rightarrow> int \<Rightarrow> int \<Rightarrow> bool" where
  "in_bounds c r k = (1 \<le> c \<and> c \<le> 5 \<and> 1 \<le> r \<and> r \<le> 6 \<and> 1 \<le> k \<and> k \<le> 4)"

definition in_range :: "jsnum \<Rightarrow> jsnum \<Rightarrow> jsnum \<Rightarrow> bool" where
  "in_range c r k =
     (js_le (Num 1) c \<and> js_le c (Num 5) \<and> js_le (Num 1) r \<and> js_le r (Num 6)
      \<and> js_le (Num 1) k \<and> js_le k (Num 4))"

text \<open>
  Matching helpers for the legacy patterns. \<open>ci_prefix tag s\<close> strips \<open>tag\<close> from the
  front of \<open>s\<close> ignoring case (the \<open>i\<close> flag); \<open>digits1\<close> is \<open>(\d+)\<close>, greedy;
  \<open>search\<close> tries a matcher at every position from the left, as an unanchored
  pattern does.
\<close>

definition ci_prefix :: "string \<Rightarrow> string \<Rightarrow> string option" where
  "ci_prefix tag s =
     (if length tag \<le> length s \<and> toLowerCase (take (length tag) s) = tag
      then Some (drop (length tag) s) else None)"

definition digits1 :: "string \<Rightarrow> (string \<times> string) option" where
  "digits1 s =
     (let d = takeWhile is_digit s in if d = [] then None else Some (d, dropWhile is_digit s))"

definition tagged_digits :: "string \<Rightarrow> string \<Rightarrow> (string \<times> string) option" where
  "tagged_digits tag s = (case ci_prefix tag s of None \<Rightarrow> None | Some r \<Rightarrow> digits1 r)"

fun search :: "(string \<Rightarrow> 'a option) \<Rightarrow> string \<Rightarrow> 'a option" where
  "search f [] = f []"
| "search f (c # cs) = (case f (c # cs) of Some r \<Rightarrow> Some r | None \<Rightarrow> search f cs)"

text \<open>\<open>/cab(\d+)-row(\d+)-col(\d+)/i\<close> at one position.\<close>

definition cab_row_col_at :: "string \<Rightarrow> (string \<times> string \<times> string) option" where
  "cab_row_col_at s =
     (case tagged_digits ''cab'' s of None \<Rightarrow> None
      | Some (c, r1) \<Rightarrow>
          (case tagged_digits ''-row'' r1 of None \<Rightarrow> None
           | Some (r, r2) \<Rightarrow>
               (case tagged_digits ''-col'' r2 of None \<Rightarrow> None
                | Some (k, _) \<Rightarrow> Some (c, r, k))))"

definition segment :: "string \<Rightarrow> string \<Rightarrow> string option" where
  "segment tag str = search (\<lambda>s. map_option fst (tagged_digits tag s)) str"

record parsed_location =
  cabinet :: string
  row :: string
  col :: string

datatype location_data = LocString string | LocArray "string list"

text \<open>
  \<open>parseLocation\<close>: the 3-element array form first, then the legacy single string
  (the first element of any other array), then single segments with \<open>-\<close> for the
  missing ones; \<open>None\<close> is the source's \<open>null\<close>.
\<close>

definition parse_legacy :: "string \<Rightarrow> parsed_location option" where
  "parse_legacy str =
     (if str = [] then None
      else case search cab_row_col_at str of
        Some (c, r, k) \<Rightarrow> Some \<lparr>cabinet = c, row = r, col = k\<rparr>
      | None \<Rightarrow>
          (let cabMatch = segment ''cab'' str;
               rowMatch = segment ''row'' str;
               colMatch = segment ''col'' str
           in if cabMatch \<noteq> None \<or> rowMatch \<noteq> None \<or> colMatch \<noteq> None
              then Some \<lparr>cabinet = (case cabMatch of Some c \<Rightarrow> c | None \<Rightarrow> ''-''),
                         row = (case rowMatch of Some r \<Rightarrow> r | None \<Rightarrow> ''-''),
                         col = (case colMatch of Some k \<Rightarrow> k | None \<Rightarrow> ''-'')\<rparr>
              else None))"

fun parseLocation :: "location_data \<Rightarrow> parsed_location option" where
  "parseLocation (LocArray [a, b, c]) =
     Some \<lparr>cabinet = extractLocationNumber a, row = extractLocationNumber b,
           col = extractLocationNumber c\<rparr>"
| "parseLocation (LocArray []) = None"
| "parseLocation (LocArray (a # _)) = parse_legacy a"
| "parseLocation (LocString str) = parse_legacy str"

text \<open>
  \<open>handleAdd\<close> of the location picker (components/LocationPicker): the tuple built
  from the three numbers the picker holds is handed to \<open>onLocationAdd\<close> unless an
  entry of the existing locations joins to the same text. The result is the tuple
  handed on, if any.
\<close>

fun join_dash :: "string list \<Rightarrow> string" where
  "join_dash [] = []"
| "join_dash [x] = x"
| "join_dash (x # y # ys) = x @ ''-'' @ join_dash (y # ys)"

definition handleAdd ::
  "digits \<Rightarrow> string list list \<Rightarrow> jsnum \<Rightarrow> jsnum \<Rightarrow> jsnum \<Rightarrow> string list option" where
  "handleAdd render existingLocations c r k =
     (let locationArr = buildLocationArray render c r k;
          key = join_dash locationArr;
          isDuplicate = list_ex (\<lambda>loc. join_dash loc = key) existingLocations
      in if isDuplicate then None else Some locationArr)"


section \<open>Numbers from strings\<close>

text \<open>
  The numeric literal grammar of the language standard (\<open>StrDecimalLiteral\<close>): an
  optional sign, then \<open>Infinity\<close>, or digits with an optional fraction, or a fraction
  alone, then an optional exponent. \<open>scan_decimal\<close> reads the longest prefix of that
  form and returns its value and the rest of the string.
\<close>

definition pow10 :: "int \<Rightarrow> rat" where
  "pow10 e = (if 0 \<le> e then 10 ^ nat e else 1 / 10 ^ nat (- e))"

definition scan_exponent :: "string \<Rightarrow> int \<times> string" where
  "scan_exponent s =
     (case s of
        [] \<Rightarrow> (0, s)
      | e # r \<Rightarrow>
          if e = CHR ''e'' \<or> e = CHR ''E'' then
            (let (neg, r') = (case r of
                                [] \<Rightarrow> (False, r)
                              | g # t \<Rightarrow> if g = CHR ''-'' then (True, t)
                                         else if g = CHR ''+'' then (False, t) else (False, r));
                 d = takeWhile is_digit r'
             in if d = [] then (0, s)
                else ((if neg then - int (digits_val d) else int (digits_val d)),
                      dropWhile is_digit r'))
          else (0, s))"

definition scan_unsigned :: "string \<Rightarrow> (jsnum \<times> string) option" where
  "scan_unsigned s =
     (if take 8 s = ''Infinity'' then Some (PosInf, drop 8 s)
      else
        let d1 = takeWhile is_digit s; r1 = dropWhile is_digit s;
            dot = (r1 \<noteq> [] \<and> hd r1 = CHR ''.'');
            d2 = (if dot then takeWhile is_digit (tl r1) else []);
            r2 = (if dot then dropWhile is_digit (tl r1) else r1)
        in if d1 = [] \<and> d2 = [] then None
           else
             let (e, r3) = scan_exponent r2;
                 m = of_nat (digits_val d1) + of_nat (digits_val d2) / 10 ^ length d2
             in Some (Num (m * pow10 e), r3))"

definition scan_decimal :: "string \<Rightarrow> (jsnum \<times> string) option" where
  "scan_decimal s =
     (case s of
        [] \<Rightarrow> None
      | c # r \<Rightarrow>
          if c = CHR ''-'' then map_option (\<lambda>(v, t). (js_neg v, t)) (scan_unsigned r)
          else if c = CHR ''+'' then scan_unsigned r
          else scan_unsigned s)"

text \<open>\<open>parseFloat\<close>: leading white space is skipped, the longest numeric prefix is
  read, anything after it is ignored; NaN when there is no such prefix.\<close>

definition parseFloat :: "string \<Rightarrow> jsnum" where
  "parseFloat s = (case scan_decimal (dropWhile is_space s) of None \<Rightarrow> NaN | Some (v, _) \<Rightarrow> v)"

text \<open>
  Conversion of a string to a number, as \<open>Math.max\<close> applies it to a string argument:
  white space is trimmed, the empty string is 0, the whole rest must be one decimal
  literal or an unsigned literal with radix prefix \<open>0x\<close>, \<open>0o\<close> or \<open>0b\<close>.
\<close>

definition radix_digit :: "char \<Rightarrow> nat option" where
  "radix_digit c =
     (let n = of_char c :: nat in
      if 48 \<le> n \<and> n \<le> 57 then Some (n - 48)
      else if 97 \<le> n \<and> n \<le> 102 then Some (n - 87)
      else if 65 \<le> n \<and> n \<le> 70 then Some (n - 55)
      else None)"

fun radix_val :: "nat \<Rightarrow> nat \<Rightarrow> string \<Rightarrow> nat option" where
  "radix_val b acc [] = Some acc"
| "radix_val b acc (c # cs) =
     (case radix_digit c of
        None \<Rightarrow> None
      | Some d \<Rightarrow> if d < b then radix_val b (b * acc + d) cs else None)"

definition radix_literal :: "string \<Rightarrow> nat option" where
  "radix_literal s =
     (case s of
        z # x # d # ds \<Rightarrow>
          if z \<noteq> CHR ''0'' then None
          else if x = CHR ''x'' \<or> x = CHR ''X'' then radix_val 16 0 (d # ds)
          else if x = CHR ''o'' \<or> x = CHR ''O'' then radix_val 8 0 (d # ds)
          else if x = CHR ''b'' \<or> x = CHR ''B'' then radix_val 2 0 (d # ds)
          else None
      | _ \<Rightarrow> None)"

definition string_to_number :: "string \<Rightarrow> jsnum" where
  "string_to_number s =
     (let t = trim s in
      if t = [] then Num 0
      else case radix_literal t of
        Some n \<Rightarrow> Num (of_nat n)
      | None \<Rightarrow> (case scan_decimal t of Some (v, []) \<Rightarrow> v | _ \<Rightarrow> NaN))"

text \<open>
  A value found where the code expects a number: a number, or a string (the CSV
  import hands raw cells to the item store).
\<close>

datatype jsval = JNum jsnum | JStr string

fun to_number :: "jsval \<Rightarrow> jsnum" where
  "to_number (JNum n) = n"
| "to_number (JStr s) = string_to_number s"

text \<open>\<open>Math.max(0, v)\<close>.\<close>

definition math_max0 :: "jsval \<Rightarrow> jsnum" where
  "math_max0 v = js_max (Num 0) (to_number v)"


section \<open>The backing store\<close>

text \<open>
  An item object with every field optional, as a draft, a patch and a stored document
  are at run time; \<open>None\<close> is a property that is missing or \<open>undefined\<close>. The type
  parameter is what the numeric fields hold: any value in a draft or patch, a number in
  a stored document (the store only ever receives the result of \<open>Math.max\<close> or of an
  increment there). An entry of \<open>location\<close> is a string, as the type of an item
  declares it, or an array of strings, as the picker and the CSV import build it. The
  legacy field \<open>locations\<close>, which no operation reads or writes, is left out.
\<close>

record 'n item_fields =
  name :: "string option"
  description :: "string option"
  supplier :: "string option"
  supplier_url :: "string option"
  on_hand :: "'n option"
  quantity :: "'n option"
  retail_price :: "'n option"
  count_date :: "string option"
  count_person :: "string option"
  delivery_date :: "string option"
  location :: "location_data list option"

type_synonym item_draft = "jsval item_fields"
type_synonym item_patch = "jsval item_fields"
type_synonym item_doc = "jsnum item_fields"

text \<open>A document of \<open>users/{uid}/checkedOutItems/{itemId}\<close>.\<close>

record checked_out_doc =
  itemId :: string
  qty :: jsnum
  updatedAt :: nat

text \<open>
  The three collections the engine touches: \<open>items\<close>, the per-user checkout ledgers
  keyed by (uid, itemId), and the document \<open>metadata/count\<close> (absent, present without
  a \<open>count\<close> field, or present with one, an integer as the client reads it). The
  database handle comes from the module \<open>services/firebase\<close>, which sets it up; its
  setting \<open>ignoreUndefinedProperties\<close> (off unless that module turns it on) is part
  of the store.
\<close>

record store =
  items :: "string \<rightharpoonup> item_doc"
  checkedOutItems :: "string \<times> string \<rightharpoonup> checked_out_doc"
  count_doc :: "int option option"
  ignoreUndefinedProperties :: bool

definition empty_store :: store where
  "empty_store =
     \<lparr>items = Map.empty, checkedOutItems = Map.empty, count_doc = None,
      ignoreUndefinedProperties = True\<rparr>"

definition strict_store :: store where
  "strict_store = empty_store\<lparr>ignoreUndefinedProperties := False\<rparr>"

text \<open>Every \<open>throw\<close> of the services, by its message.\<close>

datatype error =
    QuantityNotPositive
  | ItemNotFound
  | OnlyAvailable jsnum
  | ReturnQuantityNotPositive
  | NoCheckedOutRecord
  | CannotReturn jsnum jsnum
  | NameRequired
  | NameEmpty
  | DocumentMissing
  | InvalidData
  | FailedToCreate error
  | FailedToUpdate error

text \<open>
  The writes a transaction buffers. An \<open>update\<close> needs its document to exist; a field
  written with \<open>increment(n)\<close> becomes \<open>n\<close> when it is missing and the sum otherwise.
\<close>

datatype tx_write =
    SetCheckedOut string string checked_out_doc
  | UpdateCheckedOut string string jsnum nat
  | DeleteCheckedOut string string
  | IncrementOnHand string jsnum
  | SetCount int

definition increment :: "jsnum option \<Rightarrow> jsnum \<Rightarrow> jsnum" where
  "increment field n = (case field of None \<Rightarrow> n | Some v \<Rightarrow> js_add v n)"

fun apply_write :: "tx_write \<Rightarrow> store \<Rightarrow> store option" where
  "apply_write (SetCheckedOut uid iid d) s =
     Some (s\<lparr>checkedOutItems := (checkedOutItems s)((uid, iid) \<mapsto> d)\<rparr>)"
| "apply_write (UpdateCheckedOut uid iid n t) s =
     (case checkedOutItems s (uid, iid) of
        None \<Rightarrow> None
      | Some d \<Rightarrow>
          Some (s\<lparr>checkedOutItems :=
            (checkedOutItems s)((uid, iid) \<mapsto> d\<lparr>qty := increment (Some (qty d)) n, updatedAt := t\<rparr>)\<rparr>))"
| "apply_write (DeleteCheckedOut uid iid) s =
     Some (s\<lparr>checkedOutItems := (checkedOutItems s)((uid, iid) := None)\<rparr>)"
| "apply_write (IncrementOnHand iid n) s =
     (case items s iid of
        None \<Rightarrow> None
      | Some d \<Rightarrow> Some (s\<lparr>items := (items s)(iid \<mapsto> d\<lparr>on_hand := Some (increment (on_hand d) n)\<rparr>)\<rparr>))"
| "apply_write (SetCount n) s = Some (s\<lparr>count_doc := Some (Some n)\<rparr>)"

fun commit :: "tx_write list \<Rightarrow> store \<Rightarrow> store option" where
  "commit [] s = Some s"
| "commit (w # ws) s = (case apply_write w s of None \<Rightarrow> None | Some s' \<Rightarrow> commit ws s')"

text \<open>
  \<open>runTransaction\<close>: the body reads the store and either throws or returns a result
  with its buffered writes; the writes are applied all together or, when one of them
  cannot be applied, not at all. A transaction that fails leaves the store as it was.
  Operations run one after the other, so no transaction is retried; an outage of the
  store is outside the model.
\<close>

definition runTransaction ::
  "(store \<Rightarrow> error + ('a \<times> tx_write list)) \<Rightarrow> store \<Rightarrow> (error + 'a) \<times> store" where
  "runTransaction body s =
     (case body s of
        Inl e \<Rightarrow> (Inl e, s)
      | Inr (r, ws) \<Rightarrow>
          (case commit ws s of
             None \<Rightarrow> (Inl DocumentMissing, s)
           | Some s' \<Rightarrow> (Inr r, s')))"

section \<open>Sequential ID allocator and item store (services/itemsRepository)\<close>

text \<open>\<open>countSnap.exists() ? (countSnap.data().count ?? 0) : 0\<close>.\<close>

definition current_count :: "store \<Rightarrow> int" where
  "current_count snap = (case count_doc snap of Some (Some c) \<Rightarrow> c | _ \<Rightarrow> 0)"

text \<open>
  \<open>current + 1\<close> on an integer that is a double. Up to 2^53 in size the sum is exact.
  From 2^53 to 2^54 the doubles are the even integers, the sum lies half way between
  two of them and goes to the one whose half is even; beyond, the sum is the number
  itself.
\<close>

definition js_succ :: "int \<Rightarrow> int" where
  "js_succ c =
     (if - (2 ^ 53) \<le> c \<and> c < 2 ^ 53 then c + 1
      else if \<bar>c\<bar> < 2 ^ 54 \<and> odd (c div 2) then c + 2
      else c)"

definition getNextItemCount_body :: "store \<Rightarrow> error + (int \<times> tx_write list)" where
  "getNextItemCount_body snap =
     (let current = current_count snap;
          next = js_succ current
      in Inr (next, [SetCount next]))"

definition getNextItemCount :: "store \<Rightarrow> (error + int) \<times> store" where
  "getNextItemCount s = runTransaction getNextItemCount_body s"

text \<open>The pattern \<open>/[^a-z0-9]/g\<close> keeps lower-case letters and digits only.\<close>

definition is_lower_alnum :: "char \<Rightarrow> bool" where
  "is_lower_alnum c = ((97 \<le> (of_char c :: nat) \<and> (of_char c :: nat) \<le> 122) \<or> is_digit c)"

definition buildItemDocId :: "digits \<Rightarrow> string \<Rightarrow> int \<Rightarrow> string" where
  "buildItemDocId render nm count =
     filter is_lower_alnum (toLowerCase nm) @ number_to_string render (Num (of_int count))"

text \<open>\<open>x || ''\<close> on an optional string.\<close>

definition or_empty :: "string option \<Rightarrow> string" where
  "or_empty x = (case x of None \<Rightarrow> [] | Some v \<Rightarrow> v)"

definition blank :: "string option \<Rightarrow> bool" where
  "blank x = (case x of None \<Rightarrow> True | Some v \<Rightarrow> trim v = [])"

definition validatedDraft :: "item_draft \<Rightarrow> item_doc" where
  "validatedDraft itemDraft =
     \<lparr>name = Some (trim (or_empty (name itemDraft))),
      description = Some (or_empty (description itemDraft)),
      supplier = Some (or_empty (supplier itemDraft)),
      supplier_url = supplier_url itemDraft,
      on_hand = map_option math_max0 (on_hand itemDraft),
      quantity = map_option math_max0 (quantity itemDraft),
      retail_price = map_option math_max0 (retail_price itemDraft),
      count_date = Some (or_empty (count_date itemDraft)),
      count_person = Some (or_empty (count_person itemDraft)),
      delivery_date = Some (or_empty (delivery_date itemDraft)),
      location = Some (case location itemDraft of None \<Rightarrow> [] | Some l \<Rightarrow> l)\<rparr>"

text \<open>
  What the store refuses to write. An array that is itself an element of an array is
  not a value of the store: \<open>setDoc\<close> and \<open>updateDoc\<close> throw on a \<open>location\<close> that
  holds one. \<open>setDoc\<close> also throws on a property that is \<open>undefined\<close> unless the
  store ignores such properties; the validated draft always carries its three numeric
  properties, \<open>undefined\<close> when they were not provided, and no caller hands over any
  other property that is \<open>undefined\<close>.
\<close>

definition is_array :: "location_data \<Rightarrow> bool" where
  "is_array e = (case e of LocArray _ \<Rightarrow> True | LocString _ \<Rightarrow> False)"

definition nested_arrays :: "location_data list option \<Rightarrow> bool" where
  "nested_arrays l = (case l of None \<Rightarrow> False | Some es \<Rightarrow> list_ex is_array es)"

definition has_undefined :: "item_doc \<Rightarrow> bool" where
  "has_undefined doc = (on_hand doc = None \<or> quantity doc = None \<or> retail_price doc = None)"

definition setDoc_throws :: "store \<Rightarrow> item_doc \<Rightarrow> bool" where
  "setDoc_throws s doc =
     (nested_arrays (location doc) \<or> (has_undefined doc \<and> \<not> ignoreUndefinedProperties s))"

text \<open>
  \<open>createItem\<close>: the name check, the validated draft, a suffix from the allocator (a
  transaction of its own, so the counter stays advanced when the write that follows
  throws), the document written under the built id. The result is the id with the
  document written.
\<close>

definition createItem ::
  "digits \<Rightarrow> item_draft \<Rightarrow> store \<Rightarrow> (error + string \<times> item_doc) \<times> store" where
  "createItem render itemDraft s =
     (if blank (name itemDraft) then (Inl (FailedToCreate NameRequired), s)
      else
        let doc = validatedDraft itemDraft in
        case getNextItemCount s of
          (Inl e, s1) \<Rightarrow> (Inl (FailedToCreate e), s1)
        | (Inr nextCount, s1) \<Rightarrow>
            (let docId = buildItemDocId render (or_empty (name doc)) nextCount
             in if setDoc_throws s1 doc then (Inl (FailedToCreate InvalidData), s1)
                else (Inr (docId, doc), s1\<lparr>items := (items s1)(docId \<mapsto> doc)\<rparr>)))"

text \<open>\<open>updateDoc\<close> overwrites the fields the patch holds and fails on a missing
  document; a property of a patch that is \<open>None\<close> is one the patch does not have.\<close>

definition patch_field :: "'a option \<Rightarrow> 'a option \<Rightarrow> 'a option" where
  "patch_field new old = (case new of None \<Rightarrow> old | Some v \<Rightarrow> Some v)"

definition updateDoc :: "item_doc \<Rightarrow> item_doc \<Rightarrow> item_doc" where
  "updateDoc d p =
     \<lparr>name = patch_field (name p) (name d),
      description = patch_field (description p) (description d),
      supplier = patch_field (supplier p) (supplier d),
      supplier_url = patch_field (supplier_url p) (supplier_url d),
      on_hand = patch_field (on_hand p) (on_hand d),
      quantity = patch_field (quantity p) (quantity d),
      retail_price = patch_field (retail_price p) (retail_price d),
      count_date = patch_field (count_date p) (count_date d),
      count_person = patch_field (count_person p) (count_person d),
      delivery_date = patch_field (delivery_date p) (delivery_date d),
      location = patch_field (location p) (location d)\<rparr>"

definition validatedPatch :: "item_patch \<Rightarrow> item_doc" where
  "validatedPatch patch =
     \<lparr>name = name patch,
      description = description patch,
      supplier = supplier patch,
      supplier_url = supplier_url patch,
      on_hand = map_option math_max0 (on_hand patch),
      quantity = map_option math_max0 (quantity patch),
      retail_price = map_option math_max0 (retail_price patch),
      count_date = count_date patch,
      count_person = count_person patch,
      delivery_date = delivery_date patch,
      location = location patch\<rparr>"

definition updateItem :: "string \<Rightarrow> item_patch \<Rightarrow> store \<Rightarrow> (error + unit) \<times> store" where
  "updateItem iid patch s =
     (if name patch \<noteq> None \<and> blank (name patch) then (Inl (FailedToUpdate NameEmpty), s)
      else if nested_arrays (location patch) then (Inl (FailedToUpdate InvalidData), s)
      else case items s iid of
        None \<Rightarrow> (Inl (FailedToUpdate DocumentMissing), s)
      | Some d \<Rightarrow> (Inr (), s\<lparr>items := (items s)(iid \<mapsto> updateDoc d (validatedPatch patch))\<rparr>))"

definition deleteItem :: "string \<Rightarrow> store \<Rightarrow> store" where
  "deleteItem iid s = s\<lparr>items := (items s)(iid := None)\<rparr>"

section \<open>Checkout and return (services/checkoutService, services/returnService)\<close>

text \<open>\<open>itemData.on_hand ?? 0\<close>.\<close>

definition on_hand_or_zero :: "item_doc \<Rightarrow> jsnum" where
  "on_hand_or_zero itemData = (case on_hand itemData of None \<Rightarrow> Num 0 | Some h \<Rightarrow> h)"

definition checkout_body :: "string \<Rightarrow> string \<Rightarrow> jsnum \<Rightarrow> nat \<Rightarrow> store \<Rightarrow> error + (unit \<times> tx_write list)" where
  "checkout_body uid iid n now snap =
     (case items snap iid of
        None \<Rightarrow> Inl ItemNotFound
      | Some itemData \<Rightarrow>
          (let currentOnHand = on_hand_or_zero itemData in
           if js_lt currentOnHand n then Inl (OnlyAvailable currentOnHand)
           else Inr ((),
             [case checkedOutItems snap (uid, iid) of
                Some _ \<Rightarrow> UpdateCheckedOut uid iid n now
              | None \<Rightarrow> SetCheckedOut uid iid \<lparr>itemId = iid, qty = n, updatedAt = now\<rparr>,
              IncrementOnHand iid (js_neg n)])))"

definition checkoutItem :: "string \<Rightarrow> string \<Rightarrow> jsnum \<Rightarrow> nat \<Rightarrow> store \<Rightarrow> (error + unit) \<times> store" where
  "checkoutItem uid iid n now s =
     (if js_le n (Num 0) then (Inl QuantityNotPositive, s)
      else runTransaction (checkout_body uid iid n now) s)"

definition return_body :: "string \<Rightarrow> string \<Rightarrow> jsnum \<Rightarrow> nat \<Rightarrow> store \<Rightarrow> error + (unit \<times> tx_write list)" where
  "return_body uid iid n now snap =
     (case checkedOutItems snap (uid, iid) of
        None \<Rightarrow> Inl NoCheckedOutRecord
      | Some checkedOutData \<Rightarrow>
          (let currentQty = (if js_truthy (qty checkedOutData) then qty checkedOutData else Num 0) in
           if js_lt currentQty n then Inl (CannotReturn n currentQty)
           else Inr ((),
             [if n = currentQty \<and> n \<noteq> NaN then DeleteCheckedOut uid iid
              else UpdateCheckedOut uid iid (js_neg n) now,
              IncrementOnHand iid n])))"

definition returnItem :: "string \<Rightarrow> string \<Rightarrow> jsnum \<Rightarrow> nat \<Rightarrow> store \<Rightarrow> (error + unit) \<times> store" where
  "returnItem uid iid n now s =
     (if js_le n (Num 0) then (Inl ReturnQuantityNotPositive, s)
      else runTransaction (return_body uid iid n now) s)"


section \<open>Bulk import (components/CSVImportModal)\<close>

text \<open>\<open>toStorageDateFormat\<close>: \<open>YYYY-MM-DD\<close> becomes \<open>MM-DD-YYYY\<close>, anything else is kept.\<close>

definition toStorageDateFormat :: "string \<Rightarrow> string" where
  "toStorageDateFormat dateStr =
     (if dateStr = [] then []
      else if length dateStr = 10 \<and> dateStr ! 4 = CHR ''-'' \<and> dateStr ! 7 = CHR ''-''
              \<and> list_all is_digit (take 4 dateStr)
              \<and> list_all is_digit (take 2 (drop 5 dateStr))
              \<and> list_all is_digit (drop 8 dateStr)
      then take 2 (drop 5 dateStr) @ ''-'' @ drop 8 dateStr @ ''-'' @ take 4 dateStr
      else dateStr)"

text \<open>\<open>str.split(sep)\<close> for a one-character separator.\<close>

fun split_on :: "char \<Rightarrow> string \<Rightarrow> string list" where
  "split_on sep [] = [[]]"
| "split_on sep (c # cs) =
     (case split_on sep cs of
        [] \<Rightarrow> [[c]]
      | p # ps \<Rightarrow> if c = sep then [] # p # ps else (c # p) # ps)"

text \<open>
  \<open>parseLocationFromCSV\<close>: \<open>/cab(\d+)[-,]row(\d+)[-,]col(\d+)/i\<close> anywhere in the
  string, else \<open>/^(\d+)[,\s]+(\d+)[,\s]+(\d+)$/\<close> on the trimmed string.
\<close>

definition sep_tagged_digits :: "string \<Rightarrow> string \<Rightarrow> (string \<times> string) option" where
  "sep_tagged_digits tag s =
     (case s of
        [] \<Rightarrow> None
      | c # r \<Rightarrow> if c = CHR ''-'' \<or> c = CHR '','' then tagged_digits tag r else None)"

definition dash_match_at :: "string \<Rightarrow> (string \<times> string \<times> string) option" where
  "dash_match_at s =
     (case tagged_digits ''cab'' s of None \<Rightarrow> None
      | Some (c, r1) \<Rightarrow>
          (case sep_tagged_digits ''row'' r1 of None \<Rightarrow> None
           | Some (r, r2) \<Rightarrow>
               (case sep_tagged_digits ''col'' r2 of None \<Rightarrow> None
                | Some (k, _) \<Rightarrow> Some (c, r, k))))"

definition is_num_sep :: "char \<Rightarrow> bool" where
  "is_num_sep c = (c = CHR '','' \<or> is_space c)"

definition seps_digits :: "string \<Rightarrow> (string \<times> string) option" where
  "seps_digits s = (if takeWhile is_num_sep s = [] then None else digits1 (dropWhile is_num_sep s))"

definition nums_match :: "string \<Rightarrow> (string \<times> string \<times> string) option" where
  "nums_match s =
     (case digits1 s of None \<Rightarrow> None
      | Some (a, r1) \<Rightarrow>
          (case seps_digits r1 of None \<Rightarrow> None
           | Some (b, r2) \<Rightarrow>
               (case seps_digits r2 of None \<Rightarrow> None
                | Some (c, r3) \<Rightarrow> if r3 = [] then Some (a, b, c) else None)))"

definition parseLocationFromCSV :: "string \<Rightarrow> string list option" where
  "parseLocationFromCSV locStr =
     (case search dash_match_at locStr of
        Some (c, r, k) \<Rightarrow> Some [''cab'' @ c, ''row'' @ r, ''col'' @ k]
      | None \<Rightarrow>
          (case nums_match (trim locStr) of
             Some (c, r, k) \<Rightarrow> Some [''cab'' @ c, ''row'' @ r, ''col'' @ k]
           | None \<Rightarrow> None))"

text \<open>A parsed CSV line: the cell under each header. A header the file lacks is a
  missing property.\<close>

type_synonym csv_row = "string \<rightharpoonup> string"

record parsed_row =
  draft :: item_draft
  locationArr :: "string list list"

record validation =
  valid :: bool
  errors :: "string list"
  parsed :: "parsed_row option"

text \<open>\<open>parseNumber\<close>: a missing or empty cell is \<open>undefined\<close>, and so is one that
  \<open>parseFloat\<close> reads as NaN.\<close>

definition parseNumber :: "string option \<Rightarrow> jsnum option" where
  "parseNumber v =
     (case v of
        None \<Rightarrow> None
      | Some c \<Rightarrow> if c = [] then None
                  else (let num = parseFloat (trim c) in if num = NaN then None else Some num))"

text \<open>The test \<open>row.f && row.f.toString().trim() !== ''\<close>.\<close>

definition filled :: "string option \<Rightarrow> bool" where
  "filled v = (case v of None \<Rightarrow> False | Some c \<Rightarrow> c \<noteq> [] \<and> trim c \<noteq> [])"

definition bad_number :: "string option \<Rightarrow> bool" where
  "bad_number v =
     (filled v \<and> (case parseNumber v of None \<Rightarrow> True | Some n \<Rightarrow> js_lt n (Num 0)))"

definition row_locations :: "csv_row \<Rightarrow> string list list" where
  "row_locations r =
     (case r ''location'' of
        None \<Rightarrow> []
      | Some l \<Rightarrow>
          if l = [] then []
          else List.map_filter parseLocationFromCSV
                 (filter (\<lambda>p. p \<noteq> []) (map trim (split_on CHR '';'' l))))"

definition trimmed :: "string option \<Rightarrow> string" where
  "trimmed v = (case v of None \<Rightarrow> [] | Some c \<Rightarrow> trim c)"

definition row_draft :: "csv_row \<Rightarrow> item_draft" where
  "row_draft r =
     \<lparr>name = Some (trimmed (r ''name'')),
      description = Some (trimmed (r ''description'')),
      supplier = Some (trimmed (r ''supplier'')),
      supplier_url = None,
      on_hand = map_option JNum (parseNumber (r ''on_hand'')),
      quantity = map_option JNum (parseNumber (r ''quantity'')),
      retail_price = map_option JNum (parseNumber (r ''retail_price'')),
      count_date = Some (trimmed (r ''count_date'')),
      count_person = Some (trimmed (r ''count_person'')),
      delivery_date = Some (trimmed (r ''delivery_date'')),
      location = Some (map LocArray (row_locations r))\<rparr>"

definition row_errors :: "csv_row \<Rightarrow> string list" where
  "row_errors r =
     (if \<not> filled (r ''name'') then [''Name is required''] else [])
     @ (if bad_number (r ''on_hand'') then [''on_hand must be a positive number''] else [])
     @ (if bad_number (r ''quantity'') then [''quantity must be a positive number''] else [])
     @ (if bad_number (r ''retail_price'') then [''retail_price must be a positive number''] else [])"

definition validateRow :: "csv_row \<Rightarrow> nat \<Rightarrow> validation" where
  "validateRow r rowIndex =
     (let es = row_errors r in
      \<lparr>valid = (es = []),
       errors = es,
       parsed = (if es = [] then Some \<lparr>draft = row_draft r, locationArr = row_locations r\<rparr>
                 else None)\<rparr>)"

text \<open>An entry of the error bucket: the line number, the messages and the raw row.\<close>

record csv_error =
  line_no :: nat
  messages :: "string list"
  data :: csv_row

text \<open>
  \<open>parseCSV\<close>: the non-blank lines; the first holds the headers, lower-cased; in the
  others a comma outside double quotes ends a cell and every cell is trimmed. A header
  without a cell gets the empty string. Each row goes to one of the two buckets.
  \<open>None\<close> is the early return on a file with fewer than two lines.
\<close>

fun split_values :: "string \<Rightarrow> string \<Rightarrow> bool \<Rightarrow> string list" where
  "split_values [] current inQuotes = [trim current]"
| "split_values (ch # cs) current inQuotes =
     (if ch = CHR 0x22 then split_values cs current (\<not> inQuotes)
      else if ch = CHR '','' \<and> \<not> inQuotes then trim current # split_values cs [] inQuotes
      else split_values cs (current @ [ch]) inQuotes)"

definition make_row :: "string list \<Rightarrow> string list \<Rightarrow> csv_row" where
  "make_row headers vals =
     foldl (\<lambda>r i. r(headers ! i \<mapsto> (if i < length vals then vals ! i else [])))
       Map.empty [0..<length headers]"

definition line_row :: "string list \<Rightarrow> string \<Rightarrow> csv_row" where
  "line_row headers l = make_row headers (split_values l [] False)"

fun classify :: "string list \<Rightarrow> string list \<Rightarrow> nat \<Rightarrow> parsed_row list \<times> csv_error list" where
  "classify headers [] i = ([], [])"
| "classify headers (l # ls) i =
     (let r = line_row headers l;
          validation = validateRow r (i + 1);
          (vs, es) = classify headers ls (i + 1)
      in case parsed validation of
           Some p \<Rightarrow> if valid validation then (p # vs, es)
                     else (vs, \<lparr>line_no = i + 1, messages = errors validation, data = r\<rparr> # es)
         | None \<Rightarrow> (vs, \<lparr>line_no = i + 1, messages = errors validation, data = r\<rparr> # es))"

definition parseCSV :: "string \<Rightarrow> (parsed_row list \<times> csv_error list) option" where
  "parseCSV csvText =
     (let lines = filter (\<lambda>l. trim l \<noteq> []) (split_on CHR 0x0A csvText) in
      if length lines < 2 then None
      else Some (classify (map (\<lambda>h. toLowerCase (trim h)) (split_on CHR '','' (hd lines)))
                   (tl lines) 1))"

text \<open>
  \<open>importRows\<close>: one \<open>createItem\<close> per row, in order; a row whose creation throws is
  skipped and the count of created items is kept.
\<close>

definition itemToCreate :: "parsed_row \<Rightarrow> item_draft" where
  "itemToCreate r =
     (draft r)\<lparr>count_date := Some (toStorageDateFormat (or_empty (count_date (draft r)))),
               delivery_date := Some (toStorageDateFormat (or_empty (delivery_date (draft r))))\<rparr>"

fun importRows :: "digits \<Rightarrow> parsed_row list \<Rightarrow> nat \<Rightarrow> store \<Rightarrow> nat \<times> store" where
  "importRows render [] count s = (count, s)"
| "importRows render (r # rs) count s =
     (case createItem render (itemToCreate r) s of
        (Inr _, s') \<Rightarrow> importRows render rs (count + 1) s'
      | (Inl _, s') \<Rightarrow> importRows render rs count s')"

definition handleImportValid :: "digits \<Rightarrow> parsed_row list \<Rightarrow> store \<Rightarrow> nat \<times> store" where
  "handleImportValid render validRows s = importRows render validRows 0 s"

text \<open>
  \<open>handleImportAll\<close>: every entry of the error bucket becomes a row again, built from
  its raw cells: the name or \<open>Untitled Item\<close>, the texts or the empty string, no
  location, and the three numeric cells as they stand in the row.
\<close>

definition or_default :: "string option \<Rightarrow> string \<Rightarrow> string" where
  "or_default x d = (case x of None \<Rightarrow> d | Some v \<Rightarrow> if v = [] then d else v)"

definition errorAsParsed :: "csv_error \<Rightarrow> parsed_row" where
  "errorAsParsed err =
     \<lparr>draft =
        \<lparr>name = Some (or_default (data err ''name'') ''Untitled Item''),
         description = Some (or_empty (data err ''description'')),
         supplier = Some (or_empty (data err ''supplier'')),
         supplier_url = None,
         on_hand = map_option JStr (data err ''on_hand''),
         quantity = map_option JStr (data err ''quantity''),
         retail_price = map_option JStr (data err ''retail_price''),
         count_date = Some (or_empty (data err ''count_date'')),
         count_person = Some (or_empty (data err ''count_person'')),
         delivery_date = Some (or_empty (data err ''delivery_date'')),
         location = Some []\<rparr>,
      locationArr = []\<rparr>"

definition handleImportAll ::
  "digits \<Rightarrow> parsed_row list \<Rightarrow> csv_error list \<Rightarrow> store \<Rightarrow> nat \<times> store" where
  "handleImportAll render validRows errorRows s =
     importRows render (validRows @ map errorAsParsed errorRows) 0 s"


section \<open>Committed states\<close>

text \<open>
  The operations that write an item, and the store after each one of a sequence. A
  failed transaction commits nothing; a creation whose write throws leaves the counter
  advanced and the items as they were.
\<close>

datatype operation =
    Checkout string string jsnum nat
  | Return string string jsnum nat
  | Create item_draft
  | Update string item_patch
  | Delete string

fun step :: "digits \<Rightarrow> store \<Rightarrow> operation \<Rightarrow> store" where
  "step render s (Checkout uid iid n now) = snd (checkoutItem uid iid n now s)"
| "step render s (Return uid iid n now) = snd (returnItem uid iid n now s)"
| "step render s (Create d) = snd (createItem render d s)"
| "step render s (Update iid p) = snd (updateItem iid p s)"
| "step render s (Delete iid) = deleteItem iid s"

fun committed_states :: "digits \<Rightarrow> store \<Rightarrow> operation list \<Rightarrow> store list" where
  "committed_states render s [] = [s]"
| "committed_states render s (x # xs) = s # committed_states render (step render s x) xs"

text \<open>A number is negative when \<open>h < 0\<close> holds, which it does for no NaN; the stock
  of an item is in order when the document is missing, has no \<open>on_hand\<close>, or has one
  that is not negative.\<close>

definition negative :: "jsnum \<Rightarrow> bool" where
  "negative h = js_lt h (Num 0)"

definition stock_ok :: "item_doc option \<Rightarrow> bool" where
  "stock_ok d =
     (case d of
        None \<Rightarrow> True
      | Some itemData \<Rightarrow> (case on_hand itemData of None \<Rightarrow> True | Some h \<Rightarrow> \<not> negative h))"

section \<open>Example states\<close>

text \<open>
  A store with one item, ten on hand, of which user \<open>u1\<close> holds five more; the same
  store after the item was deleted, which leaves the ledger entry behind; and a store
  whose item has no \<open>on_hand\<close>.
\<close>

definition example_item :: item_doc where
  "example_item =
     \<lparr>name = Some ''Bolt'', description = Some [], supplier = Some [], supplier_url = None,
      on_hand = Some (Num 10), quantity = None, retail_price = None, count_date = Some [],
      count_person = Some [], delivery_date = Some [], location = Some []\<rparr>"

definition example_store :: store where
  "example_store =
     \<lparr>items = [''bolt1'' \<mapsto> example_item],
      checkedOutItems = [(''u1'', ''bolt1'') \<mapsto> \<lparr>itemId = ''bolt1'', qty = Num 5, updatedAt = 0\<rparr>],
      count_doc = Some (Some 1), ignoreUndefinedProperties = False\<rparr>"

definition orphan_store :: store where
  "orphan_store = deleteItem ''bolt1'' example_store"

definition uncounted_store :: store where
  "uncounted_store = example_store\<lparr>items := [''bolt1'' \<mapsto> example_item\<lparr>on_hand := None\<rparr>]\<rparr>"



text \<open>
  A batch of three rows: one without a name, one with \<open>on_hand\<close> -1, one in order;
  and the same batch with every numeric column filled.
\<close>

definition example_csv :: string where
  "example_csv = ''name,on_hand,supplier\<newline>,5,ACME\<newline>bolt,-1,ACME\<newline>nut,3,ACME''"

definition example_csv_full :: string where
  "example_csv_full =
     ''name,on_hand,quantity,retail_price\<newline>,5,1,1\<newline>bolt,-1,2,2\<newline>nut,3,4,4''"

text \<open>
  Drafts as the form for a new item builds them: all three numbers given and no
  location picked; the second with an \<open>on_hand\<close> of NaN, which \<open>parseInt\<close> gives
  the form for an entry such as \<open>.5\<close>; the third with one location from the picker.
\<close>

definition bolt_draft :: item_draft where
  "bolt_draft =
     \<lparr>name = Some ''Bolt'', description = Some [], supplier = Some [], supplier_url = None,
      on_hand = Some (JNum (Num 4)), quantity = Some (JNum (Num 9)),
      retail_price = Some (JNum (Num (5 / 2))), count_date = Some [], count_person = Some [],
      delivery_date = Some [], location = Some []\<rparr>"

definition nan_draft :: item_draft where
  "nan_draft = bolt_draft\<lparr>on_hand := Some (JNum NaN)\<rparr>"

definition located_draft :: item_draft where
  "located_draft = bolt_draft\<lparr>location := Some [LocArray [''cab1'', ''row2'', ''col3'']]\<rparr>"

text \<open>A renderer for the examples, none of which has a number it is asked about.\<close>

definition no_digits :: digits where
  "no_digits q = []"

section \<open>Location codec: round trip and bounds\<close>

declare show_nat.simps [simp del]

lemma is_digit_digit_char: "d < 10 \<Longrightarrow> is_digit (digit_char d)"
  by (simp add: is_digit_def digit_char_def)

lemma digit_val_digit_char: "d < 10 \<Longrightarrow> digit_val (digit_char d) = d"
  by (simp add: digit_val_def digit_char_def)

lemma show_nat_digits: "\<forall>c \<in> set (show_nat n). is_digit c"
proof (induction n rule: show_nat.induct)
  case (1 n)
  show ?case
  proof (cases "n < 10")
    case True
    then show ?thesis by (simp add: show_nat.simps [of n] is_digit_digit_char)
  next
    case False
    with 1 show ?thesis by (simp add: show_nat.simps [of n] is_digit_digit_char)
  qed
qed

lemma show_nat_nonempty: "show_nat n \<noteq> []"
  by (simp add: show_nat.simps [of n])

lemma digits_val_snoc: "digits_val (ds @ [c]) = 10 * digits_val ds + digit_val c"
  by (simp add: digits_val_def)

lemma digits_val_show_nat: "digits_val (show_nat n) = n"
proof (induction n rule: show_nat.induct)
  case (1 n)
  show ?case
  proof (cases "n < 10")
    case True
    then show ?thesis
      by (simp add: show_nat.simps [of n] digits_val_def digit_val_digit_char)
  next
    case False
    with 1 show ?thesis
      by (simp add: show_nat.simps [of n] digits_val_snoc digit_val_digit_char)
  qed
qed

lemma extract_after_tag:
  assumes "\<not> is_digit t"
  shows "extractLocationNumber (pre @ t # show_nat n) = show_nat n"
proof -
  have "takeWhile is_digit (rev (show_nat n) @ t # rev pre)
          = rev (show_nat n) @ takeWhile is_digit (t # rev pre)"
    by (rule takeWhile_append2) (use show_nat_digits in auto)
  then have "takeWhile is_digit (rev (show_nat n) @ t # rev pre) = rev (show_nat n)"
    using assms by simp
  then show ?thesis using show_nat_nonempty by (simp add: extractLocationNumber_def)
qed

lemma number_to_string_int:
  "\<bar>i\<bar> \<le> 2 ^ 53 \<Longrightarrow> number_to_string render (Num (of_int i)) = show_int i"
proof -
  assume "\<bar>i\<bar> \<le> 2 ^ 53"
  then have "\<bar>of_int i :: rat\<bar> \<le> 2 ^ 53"
    by (metis of_int_abs of_int_le_iff of_int_numeral of_int_power)
  then show ?thesis by (simp add: number_to_string_def)
qed

lemma decode_encode_nonneg:
  assumes "0 \<le> c \<and> c \<le> 2 ^ 53" and "0 \<le> r \<and> r \<le> 2 ^ 53" and "0 \<le> k \<and> k \<le> 2 ^ 53"
  shows "parseLocation (LocArray (buildLocationArray render (Num (of_int c)) (Num (of_int r))
                                    (Num (of_int k))))
           = Some \<lparr>cabinet = show_int c, row = show_int r, col = show_int k\<rparr>"
proof -
  have "number_to_string render (Num (of_int c)) = show_int c"
    and "number_to_string render (Num (of_int r)) = show_int r"
    and "number_to_string render (Num (of_int k)) = show_int k"
    using assms by (simp_all add: number_to_string_int)
  then show ?thesis
    using assms extract_after_tag [of "CHR ''b''" "''ca''" "nat c"]
      extract_after_tag [of "CHR ''w''" "''ro''" "nat r"]
      extract_after_tag [of "CHR ''l''" "''co''" "nat k"]
    by (simp add: buildLocationArray_def show_int_def is_digit_def)
qed

lemma digits_val_show_int: "0 \<le> c \<Longrightarrow> int (digits_val (show_int c)) = c"
  by (simp add: show_int_def digits_val_show_nat)

text \<open>
  C4: for every cabinet in 1..5, row in 1..6 and column in 1..4, decoding the encoded
  location is never null and yields the triple again: \<open>parseLocation\<close> returns its
  components as strings, and they are the decimal numerals of the cabinet, the row and
  the column that went in.
\<close>

theorem parseLocation_buildLocationArray_roundtrip:
  assumes "in_bounds c r k"
  shows "parseLocation (LocArray (buildLocationArray render (Num (of_int c)) (Num (of_int r))
                                    (Num (of_int k))))
           = Some \<lparr>cabinet = show_int c, row = show_int r, col = show_int k\<rparr>
         \<and> int (digits_val (show_int c)) = c
         \<and> int (digits_val (show_int r)) = r
         \<and> int (digits_val (show_int k)) = k"
proof -
  have "0 \<le> c \<and> c \<le> 2 ^ 53" and "0 \<le> r \<and> r \<le> 2 ^ 53" and "0 \<le> k \<and> k \<le> 2 ^ 53"
    using assms by (simp_all add: in_bounds_def)
  then show ?thesis
    by (simp add: decode_encode_nonneg digits_val_show_int)
qed

theorem parseLocation_buildLocationArray_roundtrip_witness:
  "in_bounds 2 3 4
   \<and> parseLocation (LocArray (buildLocationArray no_digits (Num 2) (Num 3) (Num 4)))
     = Some \<lparr>cabinet = ''2'', row = ''3'', col = ''4''\<rparr>
   \<and> digits_val ''2'' = 2 \<and> digits_val ''3'' = 3 \<and> digits_val ''4'' = 4"
proof -
  have "show_int 2 = ''2''" and "show_int 3 = ''3''" and "show_int 4 = ''4''"
    by code_simp+
  then show ?thesis
    using parseLocation_buildLocationArray_roundtrip [of 2 3 4 no_digits]
    by (simp add: in_bounds_def)
qed

text \<open>
  C9 as stated fails: \<open>buildLocationArray\<close> has no range check, and coordinates outside
  the grid give a tuple like any others.
\<close>

theorem buildLocationArray_out_of_range_counterexample:
  "\<not> in_bounds 6 7 5 \<and> \<not> in_range (Num 6) (Num 7) (Num 5)
   \<and> buildLocationArray no_digits (Num 6) (Num 7) (Num 5) = [''cab6'', ''row7'', ''col5'']"
  by code_simp

lemma parseLocation_triple: "parseLocation (LocArray [a, b, c]) \<noteq> None"
  by simp

text \<open>
  C9 amended: for coordinates of which at least one lies outside the grid, encoding
  does not fail with a range error. \<open>buildLocationArray\<close> returns a tuple of three
  strings that begin with the tags, the picker's \<open>handleAdd\<close> hands that tuple on
  unless an equal one is already there, and \<open>parseLocation\<close> takes it for a location
  (its result is not null).
\<close>

theorem buildLocationArray_unchecked:
  assumes "\<not> in_range c r k"
  shows "length (buildLocationArray render c r k) = 3
         \<and> map (take 3) (buildLocationArray render c r k) = [''cab'', ''row'', ''col'']
         \<and> parseLocation (LocArray (buildLocationArray render c r k)) \<noteq> None
         \<and> (\<not> list_ex (\<lambda>loc. join_dash loc = join_dash (buildLocationArray render c r k)) existing
              \<longrightarrow> handleAdd render existing c r k = Some (buildLocationArray render c r k))"
  by (simp add: buildLocationArray_def handleAdd_def Let_def)

theorem buildLocationArray_unchecked_witness:
  "\<not> in_range (Num 9) (Num 0) NaN
   \<and> buildLocationArray no_digits (Num 9) (Num 0) NaN = [''cab9'', ''row0'', ''colNaN'']
   \<and> parseLocation (LocArray (buildLocationArray no_digits (Num 9) (Num 0) NaN))
       = Some \<lparr>cabinet = ''9'', row = ''0'', col = ''colNaN''\<rparr>
   \<and> handleAdd no_digits [ [''cab1'', ''row1'', ''col1''] ] (Num 9) (Num 0) NaN
       = Some [''cab9'', ''row0'', ''colNaN'']"
proof -
  have nr: "\<not> in_range (Num 9) (Num 0) NaN"
    by (simp add: in_range_def)
  have b: "buildLocationArray no_digits (Num 9) (Num 0) NaN = [''cab9'', ''row0'', ''colNaN'']"
    by code_simp
  have p: "parseLocation (LocArray [''cab9'', ''row0'', ''colNaN''])
             = Some \<lparr>cabinet = ''9'', row = ''0'', col = ''colNaN''\<rparr>"
    by code_simp
  have d: "\<not> list_ex (\<lambda>loc. join_dash loc = join_dash [''cab9'', ''row0'', ''colNaN''])
               [ [''cab1'', ''row1'', ''col1''] ]"
    by simp
  have "handleAdd no_digits [ [''cab1'', ''row1'', ''col1''] ] (Num 9) (Num 0) NaN
          = Some (buildLocationArray no_digits (Num 9) (Num 0) NaN)"
    using buildLocationArray_unchecked [OF nr, of no_digits "[ [''cab1'', ''row1'', ''col1''] ]"] d
    unfolding b by blast
  with nr b p show ?thesis by simp
qed

section \<open>The allocator\<close>

lemma getNextItemCount_eq:
  "getNextItemCount s
     = (Inr (js_succ (current_count s)), s\<lparr>count_doc := Some (Some (js_succ (current_count s)))\<rparr>)"
  by (simp add: getNextItemCount_def getNextItemCount_body_def runTransaction_def Let_def)

text \<open>
  C5 as stated fails for a counter the store can hold: from -5 the allocator returns
  -4, which is not at least 1, and from 2^53 it returns 2^53 again, which is not
  greater than the counter before the call.
\<close>

theorem getNextItemCount_counterexample:
  "fst (getNextItemCount (example_store\<lparr>count_doc := Some (Some (- 5))\<rparr>)) = Inr (- 4)
   \<and> \<not> (1 :: int) \<le> - 4
   \<and> fst (getNextItemCount (example_store\<lparr>count_doc := Some (Some (2 ^ 53))\<rparr>)) = Inr (2 ^ 53)
   \<and> count_doc (snd (getNextItemCount (example_store\<lparr>count_doc := Some (Some (2 ^ 53))\<rparr>)))
       = Some (Some (2 ^ 53))"
  by (simp add: getNextItemCount_eq current_count_def js_succ_def)

text \<open>
  C5 amended: a call of the allocator takes the counter to be 0 when the counter
  document or its field is absent, and then stores 1 and returns 1. With a counter
  that is an integer below 2^53 in size it stores exactly the counter plus one and
  returns it, a suffix greater than the counter before the call, and at least 1 when
  that counter is not negative.
\<close>

theorem getNextItemCount_allocates:
  "(count_doc s = None \<or> count_doc s = Some None \<longrightarrow>
      getNextItemCount s = (Inr 1, s\<lparr>count_doc := Some (Some 1)\<rparr>))
   \<and> (\<forall>c. count_doc s = Some (Some c) \<and> - (2 ^ 53) \<le> c \<and> c < 2 ^ 53 \<longrightarrow>
          (\<exists>n. getNextItemCount s = (Inr n, s\<lparr>count_doc := Some (Some n)\<rparr>)
               \<and> n = c + 1 \<and> c < n \<and> (0 \<le> c \<longrightarrow> 1 \<le> n)))"
  by (auto simp: getNextItemCount_eq current_count_def js_succ_def)

theorem getNextItemCount_allocates_witness:
  "count_doc empty_store = None
   \<and> getNextItemCount empty_store = (Inr 1, empty_store\<lparr>count_doc := Some (Some 1)\<rparr>)
   \<and> getNextItemCount (example_store\<lparr>count_doc := Some None\<rparr>)
       = (Inr 1, example_store\<lparr>count_doc := Some (Some 1)\<rparr>)
   \<and> count_doc example_store = Some (Some 1)
   \<and> getNextItemCount example_store = (Inr 2, example_store\<lparr>count_doc := Some (Some 2)\<rparr>)"
proof -
  have a: "count_doc empty_store = None" and b: "count_doc example_store = Some (Some 1)"
    by (simp_all add: empty_store_def example_store_def)
  have 1: "getNextItemCount empty_store = (Inr 1, empty_store\<lparr>count_doc := Some (Some 1)\<rparr>)"
    using getNextItemCount_allocates [of empty_store] a by simp
  have 2: "getNextItemCount (example_store\<lparr>count_doc := Some None\<rparr>)
       = (Inr 1, example_store\<lparr>count_doc := Some (Some 1)\<rparr>)"
    using getNextItemCount_allocates [of "example_store\<lparr>count_doc := Some None\<rparr>"] by simp
  have 3: "getNextItemCount example_store = (Inr 2, example_store\<lparr>count_doc := Some (Some 2)\<rparr>)"
    using getNextItemCount_allocates [of example_store] b by simp
  from a b 1 2 3 show ?thesis by simp
qed

section \<open>Checkout against insufficient or unknown stock\<close>

lemma positive_not_le: "js_lt (Num 0) n \<Longrightarrow> \<not> js_le n (Num 0)"
  by (cases n) auto

lemma stock_ok_on_hand_or_zero:
  "stock_ok (Some d) \<Longrightarrow> \<not> negative (on_hand_or_zero d)"
  by (cases "on_hand d") (simp_all add: stock_ok_def on_hand_or_zero_def negative_def)

text \<open>
  C2: when the item exists and its \<open>on_hand\<close> (0 when the field is missing), read
  inside the transaction, is less than the quantity asked for, checkout fails with the
  insufficient-stock error and commits nothing: the store, and with it the item's
  \<open>on_hand\<close> and every ledger entry, is the one before the call. The item's stock is
  taken to be in order, that is not negative.
\<close>

theorem checkoutItem_insufficient_stock:
  assumes "items s iid = Some d" and "js_lt (on_hand_or_zero d) n" and "stock_ok (items s iid)"
  shows "checkoutItem uid iid n now s = (Inl (OnlyAvailable (on_hand_or_zero d)), s)
         \<and> items (snd (checkoutItem uid iid n now s)) iid = Some d
         \<and> checkedOutItems (snd (checkoutItem uid iid n now s)) = checkedOutItems s"
proof -
  have "\<not> negative (on_hand_or_zero d)"
    using assms(1,3) by (simp add: stock_ok_on_hand_or_zero)
  then have "\<not> js_le n (Num 0)"
    using assms(2) by (cases "on_hand_or_zero d"; cases n) (auto simp: negative_def)
  then show ?thesis
    using assms(1,2) by (simp add: checkoutItem_def runTransaction_def checkout_body_def)
qed

theorem checkoutItem_insufficient_stock_witness:
  "on_hand_or_zero example_item = Num 10
   \<and> checkoutItem ''u2'' ''bolt1'' (Num 15) 3 example_store
       = (Inl (OnlyAvailable (Num 10)), example_store)
   \<and> map_option on_hand (items (snd (checkoutItem ''u2'' ''bolt1'' (Num 15) 3 example_store)) ''bolt1'')
       = Some (Some (Num 10))
   \<and> checkedOutItems (snd (checkoutItem ''u2'' ''bolt1'' (Num 15) 3 example_store)) (''u2'', ''bolt1'')
       = None"
proof -
  have d: "items example_store ''bolt1'' = Some example_item"
    by (simp add: example_store_def)
  have h: "on_hand_or_zero example_item = Num 10"
    by (simp add: on_hand_or_zero_def example_item_def)
  have lt: "js_lt (on_hand_or_zero example_item) (Num 15)"
    by (simp add: h)
  have ok: "stock_ok (items example_store ''bolt1'')"
    by (simp add: d stock_ok_def example_item_def negative_def)
  from checkoutItem_insufficient_stock [OF d lt ok, of "''u2''" 3] h
  show ?thesis by (simp add: example_store_def example_item_def)
qed

text \<open>
  C10: an item document without \<open>on_hand\<close> counts as holding 0, so every checkout of
  a quantity above 0 fails with the insufficient-stock error; the transaction body
  throws before it buffers a write, and the store stays as it was.
\<close>

theorem checkoutItem_unknown_stock:
  assumes "items s iid = Some d" and "on_hand d = None" and "js_lt (Num 0) n"
  shows "checkout_body uid iid n now s = Inl (OnlyAvailable (Num 0))
         \<and> checkoutItem uid iid n now s = (Inl (OnlyAvailable (Num 0)), s)"
  using assms positive_not_le [of n]
  by (simp add: checkoutItem_def runTransaction_def checkout_body_def on_hand_or_zero_def)

theorem checkoutItem_unknown_stock_witness:
  "map_option on_hand (items uncounted_store ''bolt1'') = Some None
   \<and> checkoutItem ''u2'' ''bolt1'' (Num 1) 3 uncounted_store
       = (Inl (OnlyAvailable (Num 0)), uncounted_store)"
  using checkoutItem_unknown_stock [of uncounted_store "''bolt1''" "example_item\<lparr>on_hand := None\<rparr>"
      "Num 1" "''u2''" 3]
  by (simp add: uncounted_store_def)

section \<open>Return\<close>


lemma js_add_zero: "js_add (Num 0) n = n"
  by (cases n) simp_all

lemma return_not_positive:
  "js_le n (Num 0) \<Longrightarrow> returnItem uid iid n now s = (Inl ReturnQuantityNotPositive, s)"
  by (simp add: returnItem_def)

lemma return_no_record:
  assumes "js_lt (Num 0) n" and "checkedOutItems s (uid, iid) = None"
  shows "returnItem uid iid n now s = (Inl NoCheckedOutRecord, s)"
  using assms positive_not_le [of n]
  by (simp add: returnItem_def runTransaction_def return_body_def)

lemma return_excess:
  assumes "js_lt (Num 0) n" and "checkedOutItems s (uid, iid) = Some l" and "js_lt (qty l) n"
  shows "returnItem uid iid n now s = (Inl (CannotReturn n (qty l)), s)"
proof -
  have "(if js_truthy (qty l) then qty l else Num 0) = qty l"
    using assms(3) by (cases "qty l") auto
  then show ?thesis
    using assms positive_not_le [of n]
    by (simp add: returnItem_def runTransaction_def return_body_def)
qed

lemma return_body_ok:
  assumes "js_lt (Num 0) n" and "checkedOutItems s (uid, iid) = Some l" and "js_le n (qty l)"
  shows "return_body uid iid n now s =
           Inr ((), [if n = qty l then DeleteCheckedOut uid iid
                     else UpdateCheckedOut uid iid (js_neg n) now,
                     IncrementOnHand iid n])"
proof -
  have "js_truthy (qty l)" and "\<not> js_lt (qty l) n" and "n \<noteq> NaN"
    using assms(1,3) by (cases "qty l"; cases n; auto)+
  then show ?thesis
    using assms(2) by (simp add: return_body_def)
qed

lemma return_orphan:
  assumes "js_lt (Num 0) n" and "checkedOutItems s (uid, iid) = Some l" and "js_le n (qty l)"
    and "items s iid = None"
  shows "returnItem uid iid n now s = (Inl DocumentMissing, s)"
  using assms(2,4) positive_not_le [OF assms(1)] return_body_ok [OF assms(1-3)]
  by (simp add: returnItem_def runTransaction_def)

lemma return_ok:
  assumes "js_lt (Num 0) n" and "checkedOutItems s (uid, iid) = Some l" and "js_le n (qty l)"
    and "items s iid = Some d"
  shows "returnItem uid iid n now s =
           (Inr (),
            s\<lparr>checkedOutItems :=
                 (if n = qty l then (checkedOutItems s)((uid, iid) := None)
                  else (checkedOutItems s)((uid, iid) \<mapsto>
                         l\<lparr>qty := js_add (qty l) (js_neg n), updatedAt := now\<rparr>)),
              items := (items s)(iid \<mapsto> d\<lparr>on_hand := Some (js_add (on_hand_or_zero d) n)\<rparr>)\<rparr>)"
proof -
  have inc: "increment (on_hand d) m = js_add (on_hand_or_zero d) m" for m
    by (cases "on_hand d") (simp_all add: increment_def on_hand_or_zero_def js_add_zero)
  have dec: "increment (Some (qty l)) (js_neg n) = js_add (qty l) (js_neg n)"
    by (simp add: increment_def)
  show ?thesis
    using assms(2,4) positive_not_le [OF assms(1)] return_body_ok [OF assms(1-3)]
    by (simp add: returnItem_def runTransaction_def inc dec)
qed


text \<open>
  C3 as stated fails where the item document is gone: the ledger entry is there, the
  quantity is within it, and the return fails and changes nothing, because the update
  of \<open>on_hand\<close> needs the document.
\<close>

theorem returnItem_orphan_counterexample:
  "checkedOutItems orphan_store (''u1'', ''bolt1'')
     = Some \<lparr>itemId = ''bolt1'', qty = Num 5, updatedAt = 0\<rparr>
   \<and> js_lt (Num 0) (Num 2) \<and> js_le (Num 2) (Num 5)
   \<and> returnItem ''u1'' ''bolt1'' (Num 2) 9 orphan_store = (Inl DocumentMissing, orphan_store)"
proof -
  have l: "checkedOutItems orphan_store (''u1'', ''bolt1'')
             = Some \<lparr>itemId = ''bolt1'', qty = Num 5, updatedAt = 0\<rparr>"
    by (simp add: orphan_store_def example_store_def deleteItem_def)
  have "items orphan_store ''bolt1'' = None"
    by (simp add: orphan_store_def deleteItem_def)
  then have "returnItem ''u1'' ''bolt1'' (Num 2) 9 orphan_store = (Inl DocumentMissing, orphan_store)"
    using l by (intro return_orphan [where l = "\<lparr>itemId = ''bolt1'', qty = Num 5, updatedAt = 0\<rparr>"]) simp_all
  with l show ?thesis by simp
qed

text \<open>
  C3 amended: a return of a quantity that is 0 or less fails. For a quantity above 0:
  without a ledger entry for (user, item) it fails with the no-active-checkout error;
  with an entry of quantity L and a quantity above L it fails with the excess-return
  error; with a quantity of at most L and no item document it fails as well; all of
  these leave the store unchanged. With a quantity of at most L and the item document
  in place it adds the quantity to the item's \<open>on_hand\<close> (0 when missing) and deletes
  the ledger entry exactly when the quantity is L, otherwise takes the quantity off the
  entry.
\<close>

theorem returnItem_cases:
  "(js_le n (Num 0) \<longrightarrow> returnItem uid iid n now s = (Inl ReturnQuantityNotPositive, s))
   \<and> (js_lt (Num 0) n \<and> checkedOutItems s (uid, iid) = None \<longrightarrow>
        returnItem uid iid n now s = (Inl NoCheckedOutRecord, s))
   \<and> (js_lt (Num 0) n \<and> checkedOutItems s (uid, iid) = Some l \<and> js_lt (qty l) n \<longrightarrow>
        returnItem uid iid n now s = (Inl (CannotReturn n (qty l)), s))
   \<and> (js_lt (Num 0) n \<and> checkedOutItems s (uid, iid) = Some l \<and> js_le n (qty l)
        \<and> items s iid = None \<longrightarrow>
        returnItem uid iid n now s = (Inl DocumentMissing, s))
   \<and> (js_lt (Num 0) n \<and> checkedOutItems s (uid, iid) = Some l \<and> js_le n (qty l)
        \<and> items s iid = Some d \<longrightarrow>
        returnItem uid iid n now s =
          (Inr (),
           s\<lparr>checkedOutItems :=
                (if n = qty l then (checkedOutItems s)((uid, iid) := None)
                 else (checkedOutItems s)((uid, iid) \<mapsto>
                        l\<lparr>qty := js_add (qty l) (js_neg n), updatedAt := now\<rparr>)),
             items := (items s)(iid \<mapsto> d\<lparr>on_hand := Some (js_add (on_hand_or_zero d) n)\<rparr>)\<rparr>))"
  by (intro conjI impI; (elim conjE)?;
      (rule return_not_positive return_no_record return_excess return_orphan return_ok;
        assumption))


theorem returnItem_cases_witness:
  "returnItem ''u1'' ''bolt1'' (Num 0) 9 example_store = (Inl ReturnQuantityNotPositive, example_store)
   \<and> returnItem ''u2'' ''bolt1'' (Num 1) 9 example_store = (Inl NoCheckedOutRecord, example_store)
   \<and> returnItem ''u1'' ''bolt1'' (Num 6) 9 example_store
       = (Inl (CannotReturn (Num 6) (Num 5)), example_store)
   \<and> returnItem ''u1'' ''bolt1'' (Num 2) 9 orphan_store = (Inl DocumentMissing, orphan_store)
   \<and> fst (returnItem ''u1'' ''bolt1'' (Num 2) 9 example_store) = Inr ()
   \<and> map_option on_hand (items (snd (returnItem ''u1'' ''bolt1'' (Num 2) 9 example_store)) ''bolt1'')
       = Some (Some (Num 12))
   \<and> checkedOutItems (snd (returnItem ''u1'' ''bolt1'' (Num 2) 9 example_store)) (''u1'', ''bolt1'')
       = Some \<lparr>itemId = ''bolt1'', qty = Num 3, updatedAt = 9\<rparr>
   \<and> map_option on_hand (items (snd (returnItem ''u1'' ''bolt1'' (Num 5) 9 example_store)) ''bolt1'')
       = Some (Some (Num 15))
   \<and> checkedOutItems (snd (returnItem ''u1'' ''bolt1'' (Num 5) 9 example_store)) (''u1'', ''bolt1'')
       = None"
proof -
  let ?l = "\<lparr>itemId = ''bolt1'', qty = Num 5, updatedAt = 0\<rparr>"
  have l: "checkedOutItems example_store (''u1'', ''bolt1'') = Some ?l"
    and l2: "checkedOutItems example_store (''u2'', ''bolt1'') = None"
    and d: "items example_store ''bolt1'' = Some example_item"
    and lo: "checkedOutItems orphan_store (''u1'', ''bolt1'') = Some ?l"
    and no: "items orphan_store ''bolt1'' = None"
    and h: "on_hand_or_zero example_item = Num 10"
    by (simp_all add: example_store_def orphan_store_def deleteItem_def on_hand_or_zero_def
        example_item_def)
  have c1: "returnItem ''u1'' ''bolt1'' (Num 0) 9 example_store
              = (Inl ReturnQuantityNotPositive, example_store)"
    using returnItem_cases [where n = "Num 0" and s = example_store] by simp
  have c2: "returnItem ''u2'' ''bolt1'' (Num 1) 9 example_store
              = (Inl NoCheckedOutRecord, example_store)"
    using returnItem_cases [where n = "Num 1" and s = example_store and uid = "''u2''"
        and iid = "''bolt1''"] l2 by simp
  have c3: "returnItem ''u1'' ''bolt1'' (Num 6) 9 example_store
              = (Inl (CannotReturn (Num 6) (Num 5)), example_store)"
    using returnItem_cases [where n = "Num 6" and s = example_store and uid = "''u1''"
        and iid = "''bolt1''" and l = ?l] l by simp
  have c4: "returnItem ''u1'' ''bolt1'' (Num 2) 9 orphan_store = (Inl DocumentMissing, orphan_store)"
    using returnItem_cases [where n = "Num 2" and s = orphan_store and uid = "''u1''"
        and iid = "''bolt1''" and l = ?l] lo no by simp
  have c5: "returnItem ''u1'' ''bolt1'' (Num 2) 9 example_store =
      (Inr (), example_store\<lparr>checkedOutItems :=
                 (checkedOutItems example_store)((''u1'', ''bolt1'') \<mapsto> ?l\<lparr>qty := Num 3, updatedAt := 9\<rparr>),
               items := (items example_store)(''bolt1'' \<mapsto> example_item\<lparr>on_hand := Some (Num 12)\<rparr>)\<rparr>)"
    using returnItem_cases [where n = "Num 2" and s = example_store and uid = "''u1''"
        and iid = "''bolt1''" and l = ?l and d = example_item and now = 9] l d h by simp
  have c6: "returnItem ''u1'' ''bolt1'' (Num 5) 9 example_store =
      (Inr (), example_store\<lparr>checkedOutItems :=
                 (checkedOutItems example_store)((''u1'', ''bolt1'') := None),
               items := (items example_store)(''bolt1'' \<mapsto> example_item\<lparr>on_hand := Some (Num 15)\<rparr>)\<rparr>)"
    using returnItem_cases [where n = "Num 5" and s = example_store and uid = "''u1''"
        and iid = "''bolt1''" and l = ?l and d = example_item and now = 9] l d h by simp
  show ?thesis
    unfolding c1 c2 c3 c4 c5 c6 by simp
qed

section \<open>Stock in the committed states\<close>


lemma increment_not_negative_checkout:
  assumes "\<not> js_le n (Num 0)" and "\<not> js_lt (on_hand_or_zero d) n"
  shows "\<not> negative (increment (on_hand d) (js_neg n))"
proof (cases "on_hand d")
  case None
  with assms show ?thesis
    by (cases n) (auto simp: negative_def increment_def on_hand_or_zero_def)
next
  case (Some h)
  with assms show ?thesis
    by (cases h; cases n) (auto simp: negative_def increment_def on_hand_or_zero_def)
qed

lemma increment_not_negative_return:
  assumes "\<not> js_le n (Num 0)" and "stock_ok (Some d)"
  shows "\<not> negative (increment (on_hand d) n)"
proof (cases "on_hand d")
  case None
  with assms show ?thesis
    by (cases n) (auto simp: negative_def increment_def)
next
  case (Some h)
  with assms show ?thesis
    by (cases h; cases n) (auto simp: negative_def increment_def stock_ok_def)
qed

lemma math_max0_not_negative: "\<not> negative (math_max0 v)"
  by (cases "to_number v") (auto simp: negative_def math_max0_def)

lemma apply_ledger_write_items:
  assumes "apply_write w s = Some s1" and "\<forall>i m. w \<noteq> IncrementOnHand i m"
  shows "items s1 = items s"
  using assms by (cases w) (auto split: option.splits)

lemma apply_increment_items:
  assumes "apply_write (IncrementOnHand iid n) s = Some s'"
  shows "\<exists>d. items s iid = Some d
           \<and> items s' = (items s)(iid \<mapsto> d\<lparr>on_hand := Some (increment (on_hand d) n)\<rparr>)"
  using assms by (auto split: option.splits)

lemma checkout_stock_ok:
  assumes "stock_ok (items s i)"
  shows "stock_ok (items (snd (checkoutItem uid iid n now s)) i)"
proof (cases "js_le n (Num 0)")
  case True
  with assms show ?thesis by (simp add: checkoutItem_def)
next
  case pos: False
  show ?thesis
  proof (cases "checkout_body uid iid n now s")
    case (Inl e)
    with assms pos show ?thesis by (simp add: checkoutItem_def runTransaction_def)
  next
    case (Inr rw)
    then obtain d where d: "items s iid = Some d" and enough: "\<not> js_lt (on_hand_or_zero d) n"
      and ws: "snd rw = [case checkedOutItems s (uid, iid) of
                Some _ \<Rightarrow> UpdateCheckedOut uid iid n now
              | None \<Rightarrow> SetCheckedOut uid iid \<lparr>itemId = iid, qty = n, updatedAt = now\<rparr>,
              IncrementOnHand iid (js_neg n)]"
      by (auto simp: checkout_body_def Let_def split: option.splits if_splits)
    have "items (snd (checkoutItem uid iid n now s))
            = (items s)(iid \<mapsto> d\<lparr>on_hand := Some (increment (on_hand d) (js_neg n))\<rparr>)"
      using pos Inr d ws
      by (cases rw) (auto simp: checkoutItem_def runTransaction_def split: option.splits)
    then show ?thesis
      using assms increment_not_negative_checkout [OF pos enough]
      by (simp add: stock_ok_def)
  qed
qed

lemma return_stock_ok:
  assumes "stock_ok (items s i)"
  shows "stock_ok (items (snd (returnItem uid iid n now s)) i)"
proof (cases "js_le n (Num 0)")
  case True
  with assms show ?thesis by (simp add: returnItem_def)
next
  case pos: False
  show ?thesis
  proof (cases "return_body uid iid n now s")
    case (Inl e)
    with assms pos show ?thesis by (simp add: returnItem_def runTransaction_def)
  next
    case (Inr rw)
    then obtain w where ws: "snd rw = [w, IncrementOnHand iid n]"
      and w: "w = DeleteCheckedOut uid iid \<or> w = UpdateCheckedOut uid iid (js_neg n) now"
      by (auto simp: return_body_def Let_def split: option.splits if_splits)
    show ?thesis
    proof (cases "commit (snd rw) s")
      case None
      with assms pos Inr show ?thesis
        by (cases rw) (simp add: returnItem_def runTransaction_def)
    next
      case (Some s')
      then obtain s1 where s1: "apply_write w s = Some s1"
        and s': "apply_write (IncrementOnHand iid n) s1 = Some s'"
        using ws by (auto split: option.splits)
      have "items s1 = items s"
        using s1 w by (auto intro: apply_ledger_write_items)
      then obtain d where d: "items s iid = Some d"
        and upd: "items s' = (items s)(iid \<mapsto> d\<lparr>on_hand := Some (increment (on_hand d) n)\<rparr>)"
        using apply_increment_items [OF s'] by auto
      have res: "snd (returnItem uid iid n now s) = s'"
        using pos Inr Some by (cases rw) (simp add: returnItem_def runTransaction_def)
      show ?thesis
      proof (cases "i = iid")
        case True
        then have "stock_ok (Some d)" using assms d by simp
        from increment_not_negative_return [OF pos this] show ?thesis
          using True res upd by (simp add: stock_ok_def)
      next
        case False
        then show ?thesis using assms res upd by simp
      qed
    qed
  qed
qed

lemma validatedDraft_stock_ok: "stock_ok (Some (validatedDraft d))"
  by (cases "on_hand d") (simp_all add: stock_ok_def validatedDraft_def math_max0_not_negative)

lemma create_stock_ok:
  assumes "stock_ok (items s i)"
  shows "stock_ok (items (snd (createItem render d s)) i)"
  using assms validatedDraft_stock_ok [of d]
  by (auto simp: createItem_def getNextItemCount_def getNextItemCount_body_def
      runTransaction_def Let_def)

lemma update_stock_ok:
  assumes "stock_ok (items s i)"
  shows "stock_ok (items (snd (updateItem iid p s)) i)"
proof (cases "items s iid")
  case None
  with assms show ?thesis by (simp add: updateItem_def)
next
  case (Some d)
  have "stock_ok (Some d) \<Longrightarrow> stock_ok (Some (updateDoc d (validatedPatch p)))"
    by (cases "on_hand p")
      (simp_all add: stock_ok_def updateDoc_def validatedPatch_def patch_field_def
        math_max0_not_negative)
  with assms Some show ?thesis
    by (auto simp: updateItem_def)
qed

lemma step_stock_ok:
  assumes "stock_ok (items s i)"
  shows "stock_ok (items (step render s x) i)"
proof (cases x)
  case (Delete iid)
  with assms show ?thesis by (simp add: deleteItem_def stock_ok_def)
qed (use assms in \<open>simp_all add: checkout_stock_ok return_stock_ok create_stock_ok update_stock_ok\<close>)

lemma stock_ok_committed_states:
  assumes "stock_ok (items s i)" and "s' \<in> set (committed_states render s xs)"
  shows "stock_ok (items s' i)"
  using assms
proof (induction xs arbitrary: s)
  case Nil
  then show ?case by simp
next
  case (Cons x xs)
  then show ?case using step_stock_ok [of s i render x] by auto
qed

text \<open>
  C1 does not hold of the code where a number is NaN. No operation takes \<open>on_hand\<close>
  below 0 (the lemmas above), but creation and update store \<open>Math.max(0, value)\<close>,
  which is NaN for NaN and so not at least 0, and the test \<open>on_hand < qty\<close> of the
  checkout is false for an \<open>on_hand\<close> of NaN, so the checkout goes through without
  \<open>on_hand >= qty\<close>. The draft with \<open>on_hand\<close> NaN is stored with NaN; a checkout of 1
  from it succeeds, leaves \<open>on_hand\<close> NaN and a ledger entry of 1.
\<close>

theorem createItem_checkoutItem_nan:
  "on_hand nan_draft = Some (JNum NaN)
   \<and> fst (createItem no_digits nan_draft strict_store) = Inr (''bolt1'', validatedDraft nan_draft)
   \<and> map_option on_hand (items (snd (createItem no_digits nan_draft strict_store)) ''bolt1'')
       = Some (Some NaN)
   \<and> \<not> js_le (Num 0) NaN \<and> \<not> js_le (Num 1) NaN
   \<and> fst (checkoutItem ''u1'' ''bolt1'' (Num 1) 7 (snd (createItem no_digits nan_draft strict_store)))
       = Inr ()
   \<and> map_option on_hand
        (items (snd (checkoutItem ''u1'' ''bolt1'' (Num 1) 7
                       (snd (createItem no_digits nan_draft strict_store)))) ''bolt1'')
       = Some (Some NaN)
   \<and> map_option qty
        (checkedOutItems (snd (checkoutItem ''u1'' ''bolt1'' (Num 1) 7
                                 (snd (createItem no_digits nan_draft strict_store))))
           (''u1'', ''bolt1''))
       = Some (Num 1)"
  by code_simp

section \<open>Creating an item\<close>

lemma filter_dropWhile_disjoint:
  "(\<And>x. Q x \<Longrightarrow> \<not> P x) \<Longrightarrow> filter P (dropWhile Q xs) = filter P xs"
  by (induction xs) auto

lemma filter_trim:
  assumes "\<And>x. is_space x \<Longrightarrow> \<not> P x"
  shows "filter P (trim s) = filter P s"
proof -
  have "filter P (trim s) = rev (filter P (dropWhile is_space (rev (dropWhile is_space s))))"
    by (simp add: trim_def rev_filter)
  also have "\<dots> = rev (filter P (rev (dropWhile is_space s)))"
    using assms by (simp add: filter_dropWhile_disjoint)
  also have "\<dots> = filter P (dropWhile is_space s)"
    by (simp add: rev_filter [symmetric])
  also have "\<dots> = filter P s"
    using assms by (simp add: filter_dropWhile_disjoint)
  finally show ?thesis .
qed

lemma space_not_alnum: "is_space x \<Longrightarrow> \<not> is_lower_alnum (lower_char x)"
  by (auto simp: is_space_def lower_char_def is_upper_def is_lower_alnum_def is_digit_def)

lemma buildItemDocId_trim: "buildItemDocId render (trim nm) k = buildItemDocId render nm k"
proof -
  have "filter is_lower_alnum (map lower_char (trim nm))
          = map lower_char (filter (is_lower_alnum \<circ> lower_char) (trim nm))"
    by (simp add: filter_map)
  also have "\<dots> = map lower_char (filter (is_lower_alnum \<circ> lower_char) nm)"
    by (simp add: filter_trim space_not_alnum)
  also have "\<dots> = filter is_lower_alnum (map lower_char nm)"
    by (simp add: filter_map)
  finally show ?thesis by (simp add: buildItemDocId_def toLowerCase_def)
qed

lemma js_max0_ge0: "x \<noteq> NaN \<Longrightarrow> js_le (Num 0) (js_max (Num 0) x)"
  by (cases x) auto

lemma or_empty_Some: "or_empty (Some x) = x"
  by (simp add: or_empty_def)

lemma createItem_blank:
  "blank (name d) \<Longrightarrow> createItem render d s = (Inl (FailedToCreate NameRequired), s)"
  by (simp add: createItem_def)

lemma nested_arrays_validatedDraft:
  "nested_arrays (location (validatedDraft d)) = nested_arrays (location d)"
  by (cases "location d") (simp_all add: validatedDraft_def nested_arrays_def)

lemma has_undefined_validatedDraft:
  "has_undefined (validatedDraft d)
     = (on_hand d = None \<or> quantity d = None \<or> retail_price d = None)"
  by (simp add: has_undefined_def validatedDraft_def)

lemma createItem_ok:
  assumes "\<not> blank (name d)" and "\<not> nested_arrays (location d)"
    and "ignoreUndefinedProperties s
         \<or> (on_hand d \<noteq> None \<and> quantity d \<noteq> None \<and> retail_price d \<noteq> None)"
  shows "createItem render d s =
           (Inr (buildItemDocId render (or_empty (name d)) (js_succ (current_count s)),
                 validatedDraft d),
            s\<lparr>count_doc := Some (Some (js_succ (current_count s))),
              items := (items s)(buildItemDocId render (or_empty (name d)) (js_succ (current_count s))
                                   \<mapsto> validatedDraft d)\<rparr>)"
proof -
  have "\<not> setDoc_throws (s\<lparr>count_doc := Some (Some (js_succ (current_count s)))\<rparr>) (validatedDraft d)"
    using assms(2,3)
    by (auto simp: setDoc_throws_def nested_arrays_validatedDraft has_undefined_validatedDraft)
  moreover have "buildItemDocId render (or_empty (name (validatedDraft d))) k
                   = buildItemDocId render (or_empty (name d)) k" for k
    by (simp add: validatedDraft_def or_empty_Some buildItemDocId_trim)
  ultimately show ?thesis
    using assms(1)
    by (simp add: createItem_def getNextItemCount_def getNextItemCount_body_def
        runTransaction_def Let_def)
qed

text \<open>
  C6 as stated fails for a draft without \<open>supplier_url\<close>: the item that is stored and
  returned has no \<open>supplier_url\<close>, not the empty string.
\<close>

theorem createItem_counterexample:
  "supplier_url bolt_draft = None
   \<and> fst (createItem no_digits bolt_draft strict_store)
       = Inr (''bolt1'',
              \<lparr>name = Some ''Bolt'', description = Some [], supplier = Some [],
               supplier_url = None, on_hand = Some (Num 4), quantity = Some (Num 9),
               retail_price = Some (Num (5 / 2)), count_date = Some [], count_person = Some [],
               delivery_date = Some [], location = Some []\<rparr>)
   \<and> map_option supplier_url (items (snd (createItem no_digits bolt_draft strict_store)) ''bolt1'')
       = Some None"
  by code_simp

text \<open>
  C6 amended: creation fails when the name is missing, empty or white space, and then
  leaves the store as it was. For a draft with another name that the store takes (no
  entry of its \<open>location\<close> is an array, and its three numbers are all provided unless
  the store ignores undefined properties) creation succeeds: the counter is advanced
  and the item is stored, and returned, under the id made of the name in lower case
  without the characters outside a-z and 0-9, followed by the new counter value. Each
  of \<open>on_hand\<close>, \<open>quantity\<close> and \<open>retail_price\<close> that is provided as a number other than
  NaN is stored as the larger of 0 and that number, which is at least 0, and is absent
  when not provided. The description, supplier, count date, count person and delivery
  date are the empty string when missing; \<open>supplier_url\<close> is passed on as it is, absent
  when missing.
\<close>

theorem createItem_result:
  "(blank (name d) \<longrightarrow> createItem render d s = (Inl (FailedToCreate NameRequired), s))
   \<and> (\<not> blank (name d) \<and> \<not> nested_arrays (location d)
        \<and> (ignoreUndefinedProperties s
             \<or> (on_hand d \<noteq> None \<and> quantity d \<noteq> None \<and> retail_price d \<noteq> None)) \<longrightarrow>
        (\<exists>docId doc.
           createItem render d s = (Inr (docId, doc),
             s\<lparr>count_doc := Some (Some (js_succ (current_count s))),
               items := (items s)(docId \<mapsto> doc)\<rparr>)
           \<and> docId = filter is_lower_alnum (toLowerCase (or_empty (name d)))
                       @ number_to_string render (Num (of_int (js_succ (current_count s))))
           \<and> (on_hand d = None \<longrightarrow> on_hand doc = None)
           \<and> (quantity d = None \<longrightarrow> quantity doc = None)
           \<and> (retail_price d = None \<longrightarrow> retail_price doc = None)
           \<and> (\<forall>x. on_hand d = Some (JNum x) \<and> x \<noteq> NaN \<longrightarrow>
                  on_hand doc = Some (js_max (Num 0) x) \<and> js_le (Num 0) (js_max (Num 0) x))
           \<and> (\<forall>x. quantity d = Some (JNum x) \<and> x \<noteq> NaN \<longrightarrow>
                  quantity doc = Some (js_max (Num 0) x) \<and> js_le (Num 0) (js_max (Num 0) x))
           \<and> (\<forall>x. retail_price d = Some (JNum x) \<and> x \<noteq> NaN \<longrightarrow>
                  retail_price doc = Some (js_max (Num 0) x) \<and> js_le (Num 0) (js_max (Num 0) x))
           \<and> description doc = Some (or_empty (description d))
           \<and> supplier doc = Some (or_empty (supplier d))
           \<and> count_date doc = Some (or_empty (count_date d))
           \<and> count_person doc = Some (or_empty (count_person d))
           \<and> delivery_date doc = Some (or_empty (delivery_date d))
           \<and> supplier_url doc = supplier_url d))"
proof (intro conjI impI)
  assume "blank (name d)"
  then show "createItem render d s = (Inl (FailedToCreate NameRequired), s)"
    by (rule createItem_blank)
next
  assume a: "\<not> blank (name d) \<and> \<not> nested_arrays (location d)
        \<and> (ignoreUndefinedProperties s
             \<or> (on_hand d \<noteq> None \<and> quantity d \<noteq> None \<and> retail_price d \<noteq> None))"
  then have ok: "createItem render d s =
           (Inr (buildItemDocId render (or_empty (name d)) (js_succ (current_count s)),
                 validatedDraft d),
            s\<lparr>count_doc := Some (Some (js_succ (current_count s))),
              items := (items s)(buildItemDocId render (or_empty (name d)) (js_succ (current_count s))
                                   \<mapsto> validatedDraft d)\<rparr>)"
    by (intro createItem_ok) simp_all
  show "\<exists>docId doc.
           createItem render d s = (Inr (docId, doc),
             s\<lparr>count_doc := Some (Some (js_succ (current_count s))),
               items := (items s)(docId \<mapsto> doc)\<rparr>)
           \<and> docId = filter is_lower_alnum (toLowerCase (or_empty (name d)))
                       @ number_to_string render (Num (of_int (js_succ (current_count s))))
           \<and> (on_hand d = None \<longrightarrow> on_hand doc = None)
           \<and> (quantity d = None \<longrightarrow> quantity doc = None)
           \<and> (retail_price d = None \<longrightarrow> retail_price doc = None)
           \<and> (\<forall>x. on_hand d = Some (JNum x) \<and> x \<noteq> NaN \<longrightarrow>
                  on_hand doc = Some (js_max (Num 0) x) \<and> js_le (Num 0) (js_max (Num 0) x))
           \<and> (\<forall>x. quantity d = Some (JNum x) \<and> x \<noteq> NaN \<longrightarrow>
                  quantity doc = Some (js_max (Num 0) x) \<and> js_le (Num 0) (js_max (Num 0) x))
           \<and> (\<forall>x. retail_price d = Some (JNum x) \<and> x \<noteq> NaN \<longrightarrow>
                  retail_price doc = Some (js_max (Num 0) x) \<and> js_le (Num 0) (js_max (Num 0) x))
           \<and> description doc = Some (or_empty (description d))
           \<and> supplier doc = Some (or_empty (supplier d))
           \<and> count_date doc = Some (or_empty (count_date d))
           \<and> count_person doc = Some (or_empty (count_person d))
           \<and> delivery_date doc = Some (or_empty (delivery_date d))
           \<and> supplier_url doc = supplier_url d"
    apply (rule exI [of _ "buildItemDocId render (or_empty (name d)) (js_succ (current_count s))"])
    apply (rule exI [of _ "validatedDraft d"])
    apply (simp add: ok)
    apply (simp add: buildItemDocId_def validatedDraft_def math_max0_def js_max0_ge0)
    done
qed

theorem createItem_result_witness:
  "createItem no_digits (bolt_draft\<lparr>name := Some ''  ''\<rparr>) example_store
     = (Inl (FailedToCreate NameRequired), example_store)
   \<and> fst (createItem no_digits
            (bolt_draft\<lparr>name := Some '' Red Valve'', on_hand := Some (JNum (Num (- 4))),
                         description := None\<rparr>) example_store)
       = Inr (''redvalve2'',
              \<lparr>name = Some ''Red Valve'', description = Some [], supplier = Some [],
               supplier_url = None, on_hand = Some (Num 0), quantity = Some (Num 9),
               retail_price = Some (Num (5 / 2)), count_date = Some [], count_person = Some [],
               delivery_date = Some [], location = Some []\<rparr>)"
proof -
  let ?d1 = "bolt_draft\<lparr>name := Some ''  ''\<rparr>"
  let ?d2 = "bolt_draft\<lparr>name := Some '' Red Valve'', on_hand := Some (JNum (Num (- 4))),
                         description := None\<rparr>"
  have b1: "blank (name ?d1)"
    by (simp add: blank_def trim_def is_space_def)
  have b2: "\<not> blank (name ?d2)"
    by (simp add: blank_def trim_def is_space_def)
  have a2: "\<not> nested_arrays (location ?d2)"
    "on_hand ?d2 \<noteq> None \<and> quantity ?d2 \<noteq> None \<and> retail_price ?d2 \<noteq> None"
    by (simp_all add: bolt_draft_def nested_arrays_def)
  have c: "js_succ (current_count example_store) = 2"
    by (simp add: current_count_def example_store_def js_succ_def)
  have i: "filter is_lower_alnum (toLowerCase '' Red Valve'') @ number_to_string no_digits (Num 2)
             = ''redvalve2''"
    by code_simp
  have r1: "createItem no_digits ?d1 example_store = (Inl (FailedToCreate NameRequired), example_store)"
    using createItem_result [of ?d1 no_digits example_store] b1 by simp
  obtain docId doc where
    r: "createItem no_digits ?d2 example_store = (Inr (docId, doc),
          example_store\<lparr>count_doc := Some (Some (js_succ (current_count example_store))),
                         items := (items example_store)(docId \<mapsto> doc)\<rparr>)"
    and i2: "docId = filter is_lower_alnum (toLowerCase (or_empty (name ?d2)))
                       @ number_to_string no_digits
                           (Num (of_int (js_succ (current_count example_store))))"
    using createItem_result [of ?d2 no_digits example_store] b2 a2 by blast
  have "docId = ''redvalve2''"
    using i2 i c by (simp add: or_empty_def)
  moreover have "doc = validatedDraft ?d2"
    using r createItem_ok [of ?d2 example_store no_digits] b2 a2 by simp
  ultimately have r2: "fst (createItem no_digits ?d2 example_store)
                         = Inr (''redvalve2'', validatedDraft ?d2)"
    using r by simp
  have v: "validatedDraft ?d2 = \<lparr>name = Some ''Red Valve'', description = Some [], supplier = Some [],
               supplier_url = None, on_hand = Some (Num 0), quantity = Some (Num 9),
               retail_price = Some (Num (5 / 2)), count_date = Some [], count_person = Some [],
               delivery_date = Some [], location = Some []\<rparr>"
    by code_simp
  show ?thesis
    using r1 r2 v by simp
qed

section \<open>Classification of CSV rows\<close>












section \<open>Import of the error bucket\<close>

text \<open>
  C8 does not hold of the code: for an entry of the error bucket \<open>handleImportAll\<close>
  copies the raw numeric cells into the draft. In the batch of three rows the two
  error rows keep the strings 5 and -1 as \<open>on_hand\<close> of their drafts; all three rows
  are created, and the row with \<open>on_hand\<close> -1 is stored with \<open>on_hand\<close> 0. The same
  happens in the batch that fills all three numeric columns, on a store that refuses
  undefined properties.
\<close>

theorem handleImportAll_keeps_raw_cells:
  "map_option (\<lambda>(vs, es). map (\<lambda>e. on_hand (draft (errorAsParsed e))) es) (parseCSV example_csv)
     = Some [Some (JStr ''5''), Some (JStr ''-1'')]
   \<and> map_option (\<lambda>(vs, es). fst (handleImportAll no_digits vs es empty_store)) (parseCSV example_csv)
       = Some 3
   \<and> map_option (\<lambda>(vs, es). map_option on_hand
                    (items (snd (handleImportAll no_digits vs es empty_store)) ''bolt3''))
        (parseCSV example_csv)
       = Some (Some (Some (Num 0)))
   \<and> map_option (\<lambda>(vs, es). map (\<lambda>e. on_hand (draft (errorAsParsed e))) es)
        (parseCSV example_csv_full)
       = Some [Some (JStr ''5''), Some (JStr ''-1'')]
   \<and> map_option (\<lambda>(vs, es). fst (handleImportAll no_digits vs es strict_store))
        (parseCSV example_csv_full)
       = Some 3
   \<and> map_option (\<lambda>(vs, es). map_option on_hand
                    (items (snd (handleImportAll no_digits vs es strict_store)) ''bolt3''))
        (parseCSV example_csv_full)
       = Some (Some (Some (Num 0)))"
  by code_simp


end
